theory Spec2Isabelle
  imports Complex_Main
begin

section \<open>Values shared by both modules\<close>

text \<open>
  A JavaScript \<^verbatim>\<open>throw\<close> carries any value. \<open>ErrorObj m\<close> is an \<^verbatim>\<open>Error\<close> instance with
  message \<open>m\<close>; \<open>NonError s\<close> is any other thrown value, kept as its \<^verbatim>\<open>String()\<close> rendering.
\<close>

datatype thrown = ErrorObj string | NonError string

text \<open>Decimal rendering of integers, as a template literal renders a whole number.\<close>

definition digit_char :: "nat \<Rightarrow> char" where
  "digit_char d = char_of (48 + d)"

function show_nat :: "nat \<Rightarrow> string" where
  "show_nat n = (if n < 10 then [digit_char n] else show_nat (n div 10) @ [digit_char (n mod 10)])"
  by pat_completeness auto
termination
  by (relation "measure id") auto

definition show_int :: "int \<Rightarrow> string" where
  "show_int i = (if i < 0 then CHR ''-'' # show_nat (nat (- i)) else show_nat (nat i))"

text \<open>
  A JavaScript number is an IEEE 754 double: a real value, an infinity or \<^verbatim>\<open>NaN\<close> (the two
  zeros are one value here; no operation below tells them apart). Arithmetic on doubles
  computes the exact result and rounds it to the nearest double. The rounding function is
  the language's, not the program's, so it is a parameter \<open>rd\<close> of the operations: \<open>rd x\<close> is
  the double nearest to the real \<open>x\<close>, an infinity when \<open>x\<close> is out of range.
\<close>

datatype jsnum = NaN | PosInf | NegInf | Fin real

fun num_neg :: "jsnum \<Rightarrow> jsnum" where
  "num_neg NaN = NaN"
| "num_neg PosInf = NegInf"
| "num_neg NegInf = PosInf"
| "num_neg (Fin x) = Fin (- x)"

fun num_add :: "(real \<Rightarrow> jsnum) \<Rightarrow> jsnum \<Rightarrow> jsnum \<Rightarrow> jsnum" where
  "num_add rd NaN b = NaN"
| "num_add rd a NaN = NaN"
| "num_add rd PosInf NegInf = NaN"
| "num_add rd NegInf PosInf = NaN"
| "num_add rd PosInf b = PosInf"
| "num_add rd NegInf b = NegInf"
| "num_add rd (Fin x) PosInf = PosInf"
| "num_add rd (Fin x) NegInf = NegInf"
| "num_add rd (Fin x) (Fin y) = rd (x + y)"

definition num_sub :: "(real \<Rightarrow> jsnum) \<Rightarrow> jsnum \<Rightarrow> jsnum \<Rightarrow> jsnum" where
  "num_sub rd a b = num_add rd a (num_neg b)"

text \<open>The sign of a product with an infinite factor; zero times infinity is \<^verbatim>\<open>NaN\<close>.\<close>

definition signed_inf :: "bool \<Rightarrow> jsnum" where
  "signed_inf positive = (if positive then PosInf else NegInf)"

fun num_mul :: "(real \<Rightarrow> jsnum) \<Rightarrow> jsnum \<Rightarrow> jsnum \<Rightarrow> jsnum" where
  "num_mul rd NaN b = NaN"
| "num_mul rd a NaN = NaN"
| "num_mul rd PosInf PosInf = PosInf"
| "num_mul rd PosInf NegInf = NegInf"
| "num_mul rd NegInf PosInf = NegInf"
| "num_mul rd NegInf NegInf = PosInf"
| "num_mul rd PosInf (Fin y) = (if y = 0 then NaN else signed_inf (0 < y))"
| "num_mul rd NegInf (Fin y) = (if y = 0 then NaN else signed_inf (y < 0))"
| "num_mul rd (Fin x) PosInf = (if x = 0 then NaN else signed_inf (0 < x))"
| "num_mul rd (Fin x) NegInf = (if x = 0 then NaN else signed_inf (x < 0))"
| "num_mul rd (Fin x) (Fin y) = rd (x * y)"

text \<open>\<^verbatim>\<open>a > b\<close>: false whenever an operand is \<^verbatim>\<open>NaN\<close>.\<close>

fun num_gt :: "jsnum \<Rightarrow> jsnum \<Rightarrow> bool" where
  "num_gt NaN b = False"
| "num_gt a NaN = False"
| "num_gt PosInf PosInf = False"
| "num_gt PosInf b = True"
| "num_gt NegInf b = False"
| "num_gt (Fin x) PosInf = False"
| "num_gt (Fin x) NegInf = True"
| "num_gt (Fin x) (Fin y) = (x > y)"

text \<open>
  What \<^verbatim>\<open>fetch\<close> hands back: the status line and the outcome of reading the body with
  \<^verbatim>\<open>res.text()\<close> (which may itself reject). \<^verbatim>\<open>res.ok\<close> is the Fetch API's 2xx test.
\<close>

record http_response =
  status :: int
  text_result :: "thrown + string"

definition ok :: "http_response \<Rightarrow> bool" where
  "ok r = (200 \<le> status r \<and> status r \<le> 299)"

text \<open>A call of \<^verbatim>\<open>fetch\<close> either rejects (network failure) or resolves to a response.\<close>

type_synonym fetch_result = "thrown + http_response"

section \<open>Credential manager: \<^verbatim>\<open>src/worker/salesforce.ts\<close>\<close>

record TokenCache =
  accessToken :: string
  instanceUrl :: string
  expiresAt :: jsnum

text \<open>
  The module constants read from the environment. \<open>SKEW_SECONDS\<close> is
  \<^verbatim>\<open>Number(process.env.SF_TOKEN_SKEW_SECONDS || "60")\<close>: any double, fractional, infinite or
  \<^verbatim>\<open>NaN\<close> (a setting that is not a number), since nothing validates it.
  \<open>to_double\<close> is the rounding of the language's arithmetic.
  \<open>read_token_response\<close> stands for the built-in \<^verbatim>\<open>JSON.parse(text)\<close> followed by the
  reads of \<^verbatim>\<open>data.access_token\<close> and \<^verbatim>\<open>data.instance_url\<close>: \<open>Inl\<close> when parsing or reading
  throws, otherwise the two fields (\<open>None\<close> for an absent one), typed as strings as
  \<^verbatim>\<open>SalesforceTokenResponse\<close> declares them.
\<close>

record config =
  SF_LOGIN_URL :: string
  SF_API_VERSION :: string
  SKEW_SECONDS :: jsnum
  to_double :: "real \<Rightarrow> jsnum"
  read_token_response :: "string \<Rightarrow> thrown + (string option \<times> string option)"

text \<open>The default \<^verbatim>\<open>ttlSeconds = 10 * 60\<close>, a constant: 600.\<close>

definition default_ttl_seconds :: jsnum where
  "default_ttl_seconds = Fin (10 * 60)"

text \<open>
  \<^verbatim>\<open>isValid(cache)\<close>, with the reading of \<^verbatim>\<open>nowMs()\<close> passed in. \<^verbatim>\<open>Date.now()\<close> is a whole number
  of milliseconds.
\<close>

definition isValid :: "int \<Rightarrow> TokenCache option \<Rightarrow> bool" where
  "isValid now cache =
     (case cache of None \<Rightarrow> False | Some c \<Rightarrow> num_gt (expiresAt c) (Fin (real_of_int now)))"

text \<open>\<^verbatim>\<open>computeExpiresAtConservative(ttlSeconds = 10 * 60)\<close>.\<close>

definition computeExpiresAtConservative :: "config \<Rightarrow> int \<Rightarrow> jsnum \<Rightarrow> jsnum" where
  "computeExpiresAtConservative cfg now ttlSeconds =
     num_add (to_double cfg) (Fin (real_of_int now))
       (num_mul (to_double cfg) (num_sub (to_double cfg) ttlSeconds (SKEW_SECONDS cfg)) (Fin 1000))"

text \<open>JavaScript truthiness of a possibly absent string: present and not empty.\<close>

definition truthy_str :: "string option \<Rightarrow> bool" where
  "truthy_str v = (case v of None \<Rightarrow> False | Some s \<Rightarrow> s \<noteq> [])"

definition token_url :: "config \<Rightarrow> string" where
  "token_url cfg = SF_LOGIN_URL cfg @ ''/services/oauth2/token''"

text \<open>
  The body of the async closure inside \<^verbatim>\<open>refreshAccessToken\<close>, from the point where the
  token endpoint has answered with \<open>res\<close>: every \<^verbatim>\<open>throw\<close> is an \<open>Inl\<close>, and the value
  returned on success is the credential that the closure also assigns to \<^verbatim>\<open>tokenCache\<close>.
  \<open>now\<close> is the reading of \<^verbatim>\<open>nowMs()\<close> taken by \<^verbatim>\<open>computeExpiresAtConservative()\<close>.
\<close>

definition refresh_outcome :: "config \<Rightarrow> fetch_result \<Rightarrow> int \<Rightarrow> thrown + TokenCache" where
  "refresh_outcome cfg res now =
     (case res of
        Inl e \<Rightarrow> Inl e
      | Inr r \<Rightarrow>
          (case text_result r of
             Inl e \<Rightarrow> Inl e
           | Inr txt \<Rightarrow>
               if \<not> ok r then
                 Inl (ErrorObj (''Salesforce token refresh failed ('' @ show_int (status r) @ ''): '' @ txt))
               else
                 (case read_token_response cfg txt of
                    Inl e \<Rightarrow> Inl e
                  | Inr (a, i) \<Rightarrow>
                      if \<not> truthy_str a \<or> \<not> truthy_str i then
                        Inl (ErrorObj (''Salesforce token response missing fields: '' @ txt))
                      else
                        (case (a, i) of
                           (Some tok, Some url) \<Rightarrow>
                             Inr \<lparr>accessToken = tok, instanceUrl = url,
                                  expiresAt = computeExpiresAtConservative cfg now default_ttl_seconds\<rparr>
                         | _ \<Rightarrow> Inl (ErrorObj (''Salesforce token response missing fields: '' @ txt))))))"


subsection \<open>Module state and the synchronous segments of \<^verbatim>\<open>refreshAccessToken\<close>\<close>

text \<open>
  The two module variables, \<^verbatim>\<open>tokenCache\<close> and \<^verbatim>\<open>refreshing\<close>, with the promises the
  latter can point to kept in an explicit store: \<open>promises ! p\<close> is \<open>None\<close> while the
  refresh numbered \<open>p\<close> is pending and \<open>Some\<close> of its outcome once settled.
  \<open>issuerCalls\<close> logs every POST sent to the token endpoint, by URL.
\<close>

record sf_state =
  tokenCache :: "TokenCache option"
  refreshing :: "nat option"
  promises :: "(thrown + TokenCache) option list"
  issuerCalls :: "string list"

text \<open>
  JavaScript runs each stretch of code between two \<^verbatim>\<open>await\<close>s without interruption, so
  \<^verbatim>\<open>refreshAccessToken\<close> is three segments.
  \<open>refresh_begin\<close>: the closure starts, sends the POST and suspends; its promise is stored
  in \<^verbatim>\<open>refreshing\<close>.
  \<open>refresh_settle\<close>: the answer has arrived; the closure runs to its end, assigning
  \<^verbatim>\<open>tokenCache = next\<close> only on the path that returns.
  \<open>refresh_finally\<close>: the starter's \<^verbatim>\<open>finally\<close> block.
\<close>

definition refresh_begin :: "config \<Rightarrow> sf_state \<Rightarrow> sf_state" where
  "refresh_begin cfg st =
     st\<lparr>refreshing := Some (length (promises st)),
        promises := promises st @ [None],
        issuerCalls := issuerCalls st @ [token_url cfg]\<rparr>"

definition refresh_settle :: "config \<Rightarrow> nat \<Rightarrow> fetch_result \<Rightarrow> int \<Rightarrow> sf_state \<Rightarrow> sf_state" where
  "refresh_settle cfg p res now st =
     (case refresh_outcome cfg res now of
        Inl e \<Rightarrow> st\<lparr>promises := (promises st)[p := Some (Inl e)]\<rparr>
      | Inr next \<Rightarrow> st\<lparr>tokenCache := Some next, promises := (promises st)[p := Some (Inr next)]\<rparr>)"

definition refresh_finally :: "sf_state \<Rightarrow> sf_state" where
  "refresh_finally st = st\<lparr>refreshing := None\<rparr>"

text \<open>
  The synchronous part of a call of \<^verbatim>\<open>refreshAccessToken\<close>: the promise the caller ends
  up waiting for, and whether this call started it (and so owns the \<^verbatim>\<open>finally\<close>).
\<close>

definition refreshAccessToken_call :: "config \<Rightarrow> sf_state \<Rightarrow> nat \<times> sf_state" where
  "refreshAccessToken_call cfg st =
     (case refreshing st of
        Some p \<Rightarrow> (p, st)
      | None \<Rightarrow> (length (promises st), refresh_begin cfg st))"

text \<open>What a caller of \<^verbatim>\<open>getAccessToken\<close> holds when the call returns.\<close>

datatype handle = Cached TokenCache | Awaits nat

definition getAccessToken_call :: "config \<Rightarrow> int \<Rightarrow> sf_state \<Rightarrow> handle \<times> sf_state" where
  "getAccessToken_call cfg now st =
     (case (isValid now (tokenCache st), tokenCache st) of
        (True, Some c) \<Rightarrow> (Cached c, st)
      | _ \<Rightarrow> (case refreshAccessToken_call cfg st of (p, st') \<Rightarrow> (Awaits p, st')))"

subsection \<open>Interleaved callers\<close>

text \<open>
  Several callers share the module state. An event is one uninterrupted segment:
  \<open>Need c now\<close>: caller \<open>c\<close> calls \<^verbatim>\<open>getAccessToken()\<close> while the clock reads \<open>now\<close>;
  \<open>Force c\<close>: caller \<open>c\<close> calls \<^verbatim>\<open>refreshAccessToken()\<close> (exported as \<^verbatim>\<open>forceRefresh\<close>);
  \<open>Answer res now\<close>: the token endpoint answers the pending POST and the closure finishes;
  \<open>Resume\<close>: the call that started the refresh continues after \<^verbatim>\<open>await refreshing\<close>
  into its \<^verbatim>\<open>finally\<close>.
  \<open>step\<close> is \<open>None\<close> for an event that cannot happen in the state (an answer with no
  request pending, a continuation with nothing settled).
\<close>

datatype event = Need nat int | Force nat | Answer fetch_result int | Resume

record sched =
  modst :: sf_state
  handles :: "(nat \<times> handle) list"

definition promise_state :: "sf_state \<Rightarrow> nat \<Rightarrow> (thrown + TokenCache) option" where
  "promise_state st p = (if p < length (promises st) then promises st ! p else None)"

definition is_pending :: "sf_state \<Rightarrow> nat \<Rightarrow> bool" where
  "is_pending st p = (p < length (promises st) \<and> promises st ! p = None)"

fun step :: "config \<Rightarrow> event \<Rightarrow> sched \<Rightarrow> sched option" where
  "step cfg (Need c now) s =
     (case getAccessToken_call cfg now (modst s) of
        (h, st') \<Rightarrow> Some \<lparr>modst = st', handles = handles s @ [(c, h)]\<rparr>)"
| "step cfg (Force c) s =
     (case refreshAccessToken_call cfg (modst s) of
        (p, st') \<Rightarrow> Some \<lparr>modst = st', handles = handles s @ [(c, Awaits p)]\<rparr>)"
| "step cfg (Answer res now) s =
     (case refreshing (modst s) of
        None \<Rightarrow> None
      | Some p \<Rightarrow>
          if is_pending (modst s) p
          then Some \<lparr>modst = refresh_settle cfg p res now (modst s), handles = handles s\<rparr>
          else None)"
| "step cfg Resume s =
     (case refreshing (modst s) of
        None \<Rightarrow> None
      | Some p \<Rightarrow>
          (case promise_state (modst s) p of
             None \<Rightarrow> None
           | Some out \<Rightarrow> Some \<lparr>modst = refresh_finally (modst s), handles = handles s\<rparr>))"

fun run :: "config \<Rightarrow> event list \<Rightarrow> sched \<Rightarrow> sched option" where
  "run cfg [] s = Some s"
| "run cfg (e # es) s = (case step cfg e s of None \<Rightarrow> None | Some s' \<Rightarrow> run cfg es s')"

text \<open>What caller \<open>c\<close>'s call has resolved with, if it has.\<close>

definition outcome_of :: "sched \<Rightarrow> nat \<Rightarrow> (thrown + TokenCache) option" where
  "outcome_of s c =
     (case map_of (handles s) c of
        None \<Rightarrow> None
      | Some (Cached t) \<Rightarrow> Some (Inr t)
      | Some (Awaits p) \<Rightarrow> promise_state (modst s) p)"

definition needs :: "(nat \<times> int) list \<Rightarrow> event list" where
  "needs cs = map (\<lambda>(c, now). Need c now) cs"

subsection \<open>One caller run to completion\<close>

text \<open>
  The outside world as seen by the module: \<open>issuer w n\<close> is the token endpoint's answer
  to POST number \<open>n\<close>, \<open>api w n req\<close> the downstream service's answer to request number
  \<open>n\<close>, and \<open>clock w k\<close> reading number \<open>k\<close> of \<^verbatim>\<open>Date.now()\<close>.
\<close>

record request =
  url :: string
  headers :: "string \<rightharpoonup> string"
  init :: "(string \<times> string) list"

record world =
  issuer :: "nat \<Rightarrow> fetch_result"
  api :: "nat \<Rightarrow> request \<Rightarrow> fetch_result"
  clock :: "nat \<Rightarrow> int"

record sf_run =
  sf :: sf_state
  apiCalls :: "request list"
  ticks :: nat

text \<open>
  Waiting for promise \<open>p\<close> with no other caller active: if it is already settled the
  caller gets its outcome; otherwise the token endpoint answers the latest POST, the
  closure finishes and the starter's \<^verbatim>\<open>finally\<close> runs before the waiting code continues.
  The clock is read only on the path that builds the new credential.
\<close>

definition await_refresh :: "config \<Rightarrow> world \<Rightarrow> nat \<Rightarrow> sf_run \<Rightarrow> (thrown + TokenCache) \<times> sf_run" where
  "await_refresh cfg w p r =
     (case promise_state (sf r) p of
        Some out \<Rightarrow> (out, r\<lparr>sf := refresh_finally (sf r)\<rparr>)
      | None \<Rightarrow>
          (let res = issuer w (length (issuerCalls (sf r)) - 1);
               now = clock w (ticks r);
               out = refresh_outcome cfg res now
           in (out, r\<lparr>sf := refresh_finally (refresh_settle cfg p res now (sf r)),
                       ticks := (case out of Inl e \<Rightarrow> ticks r | Inr c \<Rightarrow> Suc (ticks r))\<rparr>)))"

definition refreshAccessToken :: "config \<Rightarrow> world \<Rightarrow> sf_run \<Rightarrow> (thrown + TokenCache) \<times> sf_run" where
  "refreshAccessToken cfg w r =
     (case refreshAccessToken_call cfg (sf r) of
        (p, st') \<Rightarrow> await_refresh cfg w p (r\<lparr>sf := st'\<rparr>))"

text \<open>\<^verbatim>\<open>isValid\<close> reads the clock only when a credential is cached (\<^verbatim>\<open>!!cache && ...\<close>).\<close>

definition getAccessToken :: "config \<Rightarrow> world \<Rightarrow> sf_run \<Rightarrow> (thrown + TokenCache) \<times> sf_run" where
  "getAccessToken cfg w r =
     (case tokenCache (sf r) of
        None \<Rightarrow> refreshAccessToken cfg w r
      | Some c \<Rightarrow>
          (let now = clock w (ticks r); r1 = r\<lparr>ticks := Suc (ticks r)\<rparr>
           in if isValid now (tokenCache (sf r)) then (Inr c, r1)
              else refreshAccessToken cfg w r1))"

text \<open>\<^verbatim>\<open>String.prototype.includes\<close> and \<^verbatim>\<open>startsWith\<close>.\<close>

fun str_includes :: "string \<Rightarrow> string \<Rightarrow> bool" where
  "str_includes [] sub = (sub = [])"
| "str_includes (x # xs) sub = (take (length sub) (x # xs) = sub \<or> str_includes xs sub)"

definition startsWith :: "string \<Rightarrow> string \<Rightarrow> bool" where
  "startsWith s pre = (take (length pre) s = pre)"

text \<open>\<^verbatim>\<open>isAuthFailure(status, bodyText?)\<close>; an absent body makes \<^verbatim>\<open>bodyText?.includes\<close> falsy.\<close>

definition isAuthFailure :: "int \<Rightarrow> string option \<Rightarrow> bool" where
  "isAuthFailure st bodyText =
     (if st = 401 then True
      else if st = 403 \<and> (case bodyText of None \<Rightarrow> False | Some b \<Rightarrow> str_includes b ''INVALID_SESSION_ID'') then True
      else False)"

text \<open>
  \<^verbatim>\<open>SfRequestOptions\<close>: the wrapper-only \<^verbatim>\<open>noRetry\<close> flag, the optional extra headers, and
  the remaining \<^verbatim>\<open>RequestInit\<close> properties, which are passed through untouched.
\<close>

record SfRequestOptions =
  noRetry :: "bool option"
  extraHeaders :: "(string \<rightharpoonup> string) option"
  init_rest :: "(string \<times> string) list"

definition request_url :: "TokenCache \<Rightarrow> string \<Rightarrow> string" where
  "request_url cache path =
     (if startsWith path ''http'' then path
      else instanceUrl cache @ (if startsWith path ''/'' then [] else ''/'') @ path)"

definition first_headers :: "TokenCache \<Rightarrow> SfRequestOptions \<Rightarrow> (string \<rightharpoonup> string)" where
  "first_headers cache options =
     [''Authorization'' \<mapsto> ''Bearer '' @ accessToken cache, ''Content-Type'' \<mapsto> ''application/json'']
       ++ (case extraHeaders options of None \<Rightarrow> Map.empty | Some h \<Rightarrow> h)"

definition do_fetch :: "world \<Rightarrow> request \<Rightarrow> sf_run \<Rightarrow> fetch_result \<times> sf_run" where
  "do_fetch w req r = (api w (length (apiCalls r)) req, r\<lparr>apiCalls := apiCalls r @ [req]\<rparr>)"

text \<open>\<^verbatim>\<open>await res.clone().text().catch(() => "")\<close>: the body, or the empty string when reading fails.\<close>

definition body_or_empty :: "http_response \<Rightarrow> string" where
  "body_or_empty res = (case text_result res of Inl e \<Rightarrow> [] | Inr t \<Rightarrow> t)"

definition first_request :: "TokenCache \<Rightarrow> string \<Rightarrow> SfRequestOptions \<Rightarrow> request" where
  "first_request cache path options =
     \<lparr>url = request_url cache path, headers = first_headers cache options, init = init_rest options\<rparr>"

definition retry_request :: "TokenCache \<Rightarrow> TokenCache \<Rightarrow> string \<Rightarrow> SfRequestOptions \<Rightarrow> request" where
  "retry_request cache cache2 path options =
     \<lparr>url = request_url cache2 path,
      headers = (first_headers cache options)(''Authorization'' \<mapsto> ''Bearer '' @ accessToken cache2),
      init = init_rest options\<rparr>"

definition sfFetch :: "config \<Rightarrow> world \<Rightarrow> string \<Rightarrow> SfRequestOptions \<Rightarrow> sf_run \<Rightarrow> fetch_result \<times> sf_run" where
  "sfFetch cfg w path options r =
     (case getAccessToken cfg w r of
        (Inl e, r1) \<Rightarrow> (Inl e, r1)
      | (Inr cache, r1) \<Rightarrow>
          (case do_fetch w (first_request cache path options) r1 of
             (Inl e, r2) \<Rightarrow> (Inl e, r2)
           | (Inr res, r2) \<Rightarrow>
               if noRetry options \<noteq> Some True \<and> (status res = 401 \<or> status res = 403) then
                 (if isAuthFailure (status res) (Some (body_or_empty res)) then
                    (case refreshAccessToken cfg w r2 of
                       (Inl e, r3) \<Rightarrow> (Inl e, r3)
                     | (Inr fresh, r3) \<Rightarrow>
                         (case getAccessToken cfg w r3 of
                            (Inl e, r4) \<Rightarrow> (Inl e, r4)
                          | (Inr cache2, r4) \<Rightarrow> do_fetch w (retry_request cache cache2 path options) r4))
                  else (Inr res, r2))
               else (Inr res, r2)))"

section \<open>Job worker: \<^verbatim>\<open>src/worker/worker.ts\<close>\<close>

subsection \<open>JavaScript values\<close>

text \<open>\<^verbatim>\<open>job.data\<close> is untyped: any JSON value, or \<^verbatim>\<open>undefined\<close>.\<close>

datatype js = JUndefined | JNull | JBool bool | JNum jsnum | JStr string
  | JArr "js list" | JObj "(string \<times> js) list"

fun truthy :: "js \<Rightarrow> bool" where
  "truthy JUndefined = False"
| "truthy JNull = False"
| "truthy (JBool b) = b"
| "truthy (JNum n) = (n \<noteq> NaN \<and> n \<noteq> Fin 0)"
| "truthy (JStr s) = (s \<noteq> [])"
| "truthy (JArr xs) = True"
| "truthy (JObj kvs) = True"

text \<open>
  \<open>opt_prop v k\<close> is the read \<^verbatim>\<open>v?.k\<close>, which never throws; it is also the read \<^verbatim>\<open>v.k\<close> of a
  value known not to be \<^verbatim>\<open>null\<close> or \<^verbatim>\<open>undefined\<close>. None of the keys read by the worker is
  an inherited property, so anything but an object holding the key gives \<^verbatim>\<open>undefined\<close>.
\<close>

fun opt_prop :: "js \<Rightarrow> string \<Rightarrow> js" where
  "opt_prop (JObj kvs) k = (case map_of kvs k of None \<Rightarrow> JUndefined | Some v \<Rightarrow> v)"
| "opt_prop v k = JUndefined"

text \<open>\<^verbatim>\<open>a || b\<close>.\<close>

definition js_or :: "js \<Rightarrow> js \<Rightarrow> js" where
  "js_or a b = (if truthy a then a else b)"

text \<open>
  How a template literal renders a value; \<open>render\<close> is the language's rendering of a number
  (decimal or exponent form, \<^verbatim>\<open>NaN\<close>, \<^verbatim>\<open>Infinity\<close>).
\<close>

fun join_commas :: "string list \<Rightarrow> string" where
  "join_commas [] = []"
| "join_commas [x] = x"
| "join_commas (x # y # ys) = x @ '','' @ join_commas (y # ys)"

fun to_string :: "(jsnum \<Rightarrow> string) \<Rightarrow> js \<Rightarrow> string" where
  "to_string render JUndefined = ''undefined''"
| "to_string render JNull = ''null''"
| "to_string render (JBool b) = (if b then ''true'' else ''false'')"
| "to_string render (JNum n) = render n"
| "to_string render (JStr s) = s"
| "to_string render (JArr xs) =
     join_commas (map (\<lambda>x. if x = JUndefined \<or> x = JNull then [] else to_string render x) xs)"
| "to_string render (JObj kvs) = ''[object Object]''"

text \<open>\<^verbatim>\<open>getErrorMessage(err)\<close>.\<close>

fun getErrorMessage :: "thrown \<Rightarrow> string" where
  "getErrorMessage (ErrorObj m) = m"
| "getErrorMessage (NonError s) = s"

subsection \<open>The outside world of the worker\<close>

text \<open>
  Every external call is logged in \<open>calls\<close>, in order, whether or not it succeeds; the
  world answers call number \<open>n\<close> (its position in the log). \<open>audit_log\<close> holds the rows
  the database accepted. Slack message bodies are named by a constructor; their wording
  is not modelled.
\<close>

record audit_entry =
  source :: string
  action :: string
  entry_status :: string
  correlation_id :: js
  payload :: js

datatype notice =
    Verifying | EmailNotVerified | ChannelNotLinked | NoEntitlement
  | ContactNotFound js js | PendingApproval | AllChecksPassed js js
  | CreateFailed js | ProfileSubmitted | CaseReceived js
  | ChatUpdate string js js

datatype call =
    DbInsert audit_entry
  | DbSelect js js
  | HttpPost js notice
  | SfJson string js

record wworld =
  date_now :: int
  iso_now :: string
  env_var :: "string \<Rightarrow> string option"
  db_insert :: "nat \<Rightarrow> thrown option"
  db_select :: "nat \<Rightarrow> thrown + js list"
  http :: "nat \<Rightarrow> fetch_result"
  sf_json :: "nat \<Rightarrow> thrown + js"
  parse_json :: "string \<Rightarrow> thrown + js"
  type_error :: "string \<Rightarrow> thrown"
  number_to_string :: "jsnum \<Rightarrow> string"

record wstate =
  calls :: "call list"
  audit_log :: "audit_entry list"

text \<open>
  The read \<^verbatim>\<open>v.k\<close> (also a destructuring \<^verbatim>\<open>const {k} = v\<close>): a \<^verbatim>\<open>TypeError\<close>, worded by the
  engine, when \<open>v\<close> is \<^verbatim>\<open>null\<close> or \<^verbatim>\<open>undefined\<close>.
\<close>

definition get_prop :: "wworld \<Rightarrow> js \<Rightarrow> string \<Rightarrow> thrown + js" where
  "get_prop w v k = (if v = JUndefined \<or> v = JNull then Inl (type_error w k) else Inr (opt_prop v k))"

definition requireEnv :: "wworld \<Rightarrow> string \<Rightarrow> thrown + string" where
  "requireEnv w name =
     (case env_var w name of
        None \<Rightarrow> Inl (ErrorObj (''Missing '' @ name @ '' in environment variables''))
      | Some v \<Rightarrow>
          if v = [] then Inl (ErrorObj (''Missing '' @ name @ '' in environment variables''))
          else Inr v)"

text \<open>\<^verbatim>\<open>pool.query("INSERT INTO audit_log ...")\<close>.\<close>

definition insert_audit :: "wworld \<Rightarrow> audit_entry \<Rightarrow> wstate \<Rightarrow> (thrown + unit) \<times> wstate" where
  "insert_audit w e s =
     (case db_insert w (length (calls s)) of
        Some err \<Rightarrow> (Inl err, s\<lparr>calls := calls s @ [DbInsert e]\<rparr>)
      | None \<Rightarrow> (Inr (), \<lparr>calls = calls s @ [DbInsert e], audit_log = audit_log s @ [e]\<rparr>))"

definition fetch_post :: "wworld \<Rightarrow> js \<Rightarrow> notice \<Rightarrow> wstate \<Rightarrow> fetch_result \<times> wstate" where
  "fetch_post w u body s = (http w (length (calls s)), s\<lparr>calls := calls s @ [HttpPost u body]\<rparr>)"

definition replyToResponseUrl :: "wworld \<Rightarrow> js \<Rightarrow> notice \<Rightarrow> wstate \<Rightarrow> (thrown + unit) \<times> wstate" where
  "replyToResponseUrl w responseUrl body s =
     (case fetch_post w responseUrl body s of
        (Inl e, s1) \<Rightarrow> (Inl e, s1)
      | (Inr res, s1) \<Rightarrow>
          if \<not> ok res then
            (case text_result res of
               Inl e \<Rightarrow> (Inl e, s1)
             | Inr t \<Rightarrow>
                 (Inl (ErrorObj (''Failed to respond via response_url: '' @ show_int (status res) @ '' '' @ t)), s1))
          else (Inr (), s1))"

definition slackUpdateMessage :: "wworld \<Rightarrow> string \<Rightarrow> js \<Rightarrow> js \<Rightarrow> wstate \<Rightarrow> (thrown + unit) \<times> wstate" where
  "slackUpdateMessage w token channel ts s =
     (case fetch_post w (JStr ''https://slack.com/api/chat.update'') (ChatUpdate token channel ts) s of
        (Inl e, s1) \<Rightarrow> (Inl e, s1)
      | (Inr res, s1) \<Rightarrow>
          (case text_result res of
             Inl e \<Rightarrow> (Inl e, s1)
           | Inr t \<Rightarrow>
               (case parse_json w t of
                  Inl e \<Rightarrow> (Inl e, s1)
                | Inr d \<Rightarrow>
                    (case get_prop w d ''ok'' of
                       Inl e \<Rightarrow> (Inl e, s1)
                     | Inr okv \<Rightarrow>
                         if \<not> truthy okv then
                           (Inl (ErrorObj (''Slack chat.update failed: '' @ to_string (number_to_string w) (opt_prop d ''error''))), s1)
                         else (Inr (), s1)))))"

text \<open>\<^verbatim>\<open>salesforce.sfJson\<close>, seen from the worker as one call that returns or throws.\<close>

definition sf_call :: "wworld \<Rightarrow> string \<Rightarrow> js \<Rightarrow> wstate \<Rightarrow> (thrown + js) \<times> wstate" where
  "sf_call w path body s = (sf_json w (length (calls s)), s\<lparr>calls := calls s @ [SfJson path body]\<rparr>)"

definition sfValidateUser :: "wworld \<Rightarrow> js \<Rightarrow> js \<Rightarrow> js \<Rightarrow> js \<Rightarrow> wstate \<Rightarrow> (thrown + js) \<times> wstate" where
  "sfValidateUser w slackTeamId slackChannelId email slackUserId s =
     sf_call w ''/services/apexrest/barry/validate-user''
       (JObj [(''slackTeamId'', slackTeamId), (''slackChannelId'', slackChannelId),
              (''email'', email), (''slackUserId'', slackUserId)]) s"

definition sfCreateContact :: "wworld \<Rightarrow> js \<Rightarrow> wstate \<Rightarrow> (thrown + js) \<times> wstate" where
  "sfCreateContact w d s = sf_call w ''/services/apexrest/barry/create-contact'' d s"

subsection \<open>Workflow handlers\<close>

text \<open>
  \<^verbatim>\<open>handleValidationResult(result, ctx)\<close>: the \<^verbatim>\<open>switch\<close> on \<^verbatim>\<open>result.status\<close>; a status
  outside the five cases does nothing.
\<close>

definition handleValidationResult ::
  "wworld \<Rightarrow> js \<Rightarrow> js \<Rightarrow> js \<Rightarrow> wstate \<Rightarrow> (thrown + unit) \<times> wstate" where
  "handleValidationResult w result email response_url s =
     (case get_prop w result ''status'' of
        Inl e \<Rightarrow> (Inl e, s)
      | Inr st \<Rightarrow>
          if st = JStr ''channel_not_linked'' then replyToResponseUrl w response_url ChannelNotLinked s
          else if st = JStr ''no_entitlement'' then replyToResponseUrl w response_url NoEntitlement s
          else if st = JStr ''contact_not_found'' then
            replyToResponseUrl w response_url (ContactNotFound email (opt_prop result ''accountId'')) s
          else if st = JStr ''pending_approval'' then replyToResponseUrl w response_url PendingApproval s
          else if st = JStr ''approved'' then
            replyToResponseUrl w response_url
              (AllChecksPassed (opt_prop result ''accountId'') (opt_prop result ''contactId'')) s
          else (Inr (), s))"

text \<open>\<^verbatim>\<open>handleCreateCaseCommand(job, payload)\<close>; its \<^verbatim>\<open>return\<close> leaves only this function.\<close>

definition handleCreateCaseCommand :: "wworld \<Rightarrow> js \<Rightarrow> wstate \<Rightarrow> (thrown + unit) \<times> wstate" where
  "handleCreateCaseCommand w p s =
     (let response_url = opt_prop p ''response_url''; team_id = opt_prop p ''team_id'';
          channel_id = opt_prop p ''channel_id''; user_id = opt_prop p ''user_id''
      in if \<not> truthy response_url then (Inl (ErrorObj ''Missing response_url in slack command payload''), s)
         else if \<not> truthy team_id then (Inl (ErrorObj ''Missing team_id in slack command payload''), s)
         else if \<not> truthy channel_id then (Inl (ErrorObj ''Missing channel_id in slack command payload''), s)
         else if \<not> truthy user_id then (Inl (ErrorObj ''Missing user_id in slack command payload''), s)
         else
           (case replyToResponseUrl w response_url Verifying s of
              (Inl e, s1) \<Rightarrow> (Inl e, s1)
            | (Inr u, s1) \<Rightarrow>
                (case db_select w (length (calls s1)) of
                   Inl e \<Rightarrow> (Inl e, s1\<lparr>calls := calls s1 @ [DbSelect team_id user_id]\<rparr>)
                 | Inr rows \<Rightarrow>
                     (let s2 = s1\<lparr>calls := calls s1 @ [DbSelect team_id user_id]\<rparr>
                      in case rows of
                           [] \<Rightarrow> replyToResponseUrl w response_url EmailNotVerified s2
                         | row # rest \<Rightarrow>
                             (case get_prop w row ''email'' of
                                Inl e \<Rightarrow> (Inl e, s2)
                              | Inr email \<Rightarrow>
                                  (case sfValidateUser w team_id channel_id email user_id s2 of
                                     (Inl e, s3) \<Rightarrow> (Inl e, s3)
                                   | (Inr result, s3) \<Rightarrow>
                                       handleValidationResult w result email response_url s3))))))"

text \<open>
  How one \<^verbatim>\<open>if (job.name === ...)\<close> block of the processor ends: it falls through to the
  statements after it, or executes \<^verbatim>\<open>return;\<close> and so leaves the processor at once; a
  \<^verbatim>\<open>throw\<close> is an \<open>Inl\<close>.
\<close>

datatype flow = Fall | Return

record job =
  job_id :: string
  job_name :: string
  attemptsMade :: nat
  job_data :: js

definition falls :: "(thrown + unit) \<times> wstate \<Rightarrow> (thrown + flow) \<times> wstate" where
  "falls r = (case r of (Inl e, s) \<Rightarrow> (Inl e, s) | (Inr u, s) \<Rightarrow> (Inr Fall, s))"

definition slack_interaction :: "wworld \<Rightarrow> job \<Rightarrow> wstate \<Rightarrow> (thrown + flow) \<times> wstate" where
  "slack_interaction w j s =
     (if job_name j = ''slack-interaction'' then
        (case requireEnv w ''SLACK_BOT_TOKEN'' of
           Inl e \<Rightarrow> (Inl e, s)
         | Inr token \<Rightarrow>
             (let interactionPayload = opt_prop (job_data j) ''payload'';
                  channel = opt_prop (opt_prop interactionPayload ''channel'') ''id'';
                  ts = opt_prop (opt_prop interactionPayload ''message'') ''ts''
              in if \<not> truthy channel \<or> \<not> truthy ts then
                   (Inl (ErrorObj ''Missing channel.id or message.ts in interaction payload''), s)
                 else falls (slackUpdateMessage w token channel ts s)))
      else (Inr Fall, s))"

definition slack_command :: "wworld \<Rightarrow> job \<Rightarrow> wstate \<Rightarrow> (thrown + flow) \<times> wstate" where
  "slack_command w j s =
     (if job_name j = ''slack-command'' then
        (let cmdPayload = opt_prop (job_data j) ''payload''
         in if \<not> truthy cmdPayload then (Inl (ErrorObj ''Missing payload on slack-command job''), s)
            else
              (let cmd = js_or (opt_prop cmdPayload ''command'') (JStr [])
               in if cmd = JStr ''/create-case'' \<or> cmd = JStr ''/raise-case''
                  then falls (handleCreateCaseCommand w cmdPayload s)
                  else (Inr Fall, s)))
      else (Inr Fall, s))"

definition verify_user :: "wworld \<Rightarrow> job \<Rightarrow> wstate \<Rightarrow> (thrown + flow) \<times> wstate" where
  "verify_user w j s =
     (if job_name j = ''verify-user'' then
        (case get_prop w (job_data j) ''team_id'' of
           Inl e \<Rightarrow> (Inl e, s)
         | Inr team_id \<Rightarrow>
             (let channel_id = opt_prop (job_data j) ''channel_id''; user_id = opt_prop (job_data j) ''user_id'';
                  email = opt_prop (job_data j) ''email''; response_url = opt_prop (job_data j) ''response_url''
              in if \<not> truthy response_url then (Inr Return, s)
                 else
                   (case replyToResponseUrl w response_url Verifying s of
                      (Inl e, s1) \<Rightarrow> (Inl e, s1)
                    | (Inr u, s1) \<Rightarrow>
                        (case sfValidateUser w team_id channel_id email user_id s1 of
                           (Inl e, s2) \<Rightarrow> (Inl e, s2)
                         | (Inr result, s2) \<Rightarrow>
                             falls (handleValidationResult w result email response_url s2)))))
      else (Inr Fall, s))"

definition create_contact :: "wworld \<Rightarrow> job \<Rightarrow> wstate \<Rightarrow> (thrown + flow) \<times> wstate" where
  "create_contact w j s =
     (if job_name j = ''create-contact'' then
        (case get_prop w (job_data j) ''team_id'' of
           Inl e \<Rightarrow> (Inl e, s)
         | Inr team_id \<Rightarrow>
             (let d = job_data j; response_url = opt_prop d ''response_url''
              in case sfCreateContact w
                        (JObj [(''accountId'', opt_prop d ''account_id''), (''email'', opt_prop d ''email''),
                               (''firstName'', opt_prop d ''first_name''), (''lastName'', opt_prop d ''last_name''),
                               (''phone'', opt_prop d ''phone''), (''jobTitle'', opt_prop d ''job_title''),
                               (''slackUserId'', opt_prop d ''user_id''), (''slackTeamId'', team_id)]) s of
                   (Inl e, s1) \<Rightarrow> (Inl e, s1)
                 | (Inr sfRes, s1) \<Rightarrow>
                     (case get_prop w sfRes ''success'' of
                        Inl e \<Rightarrow> (Inl e, s1)
                      | Inr success \<Rightarrow>
                          if \<not> truthy success then
                            (if truthy response_url then
                               (case replyToResponseUrl w response_url (CreateFailed (opt_prop sfRes ''error'')) s1 of
                                  (Inl e, s2) \<Rightarrow> (Inl e, s2)
                                | (Inr u, s2) \<Rightarrow> (Inr Return, s2))
                             else (Inr Return, s1))
                          else if truthy response_url then
                            falls (replyToResponseUrl w response_url ProfileSubmitted s1)
                          else (Inr Fall, s1))))
      else (Inr Fall, s))"

definition create_case :: "wworld \<Rightarrow> job \<Rightarrow> wstate \<Rightarrow> (thrown + flow) \<times> wstate" where
  "create_case w j s =
     (if job_name j = ''create-case'' then
        (case get_prop w (job_data j) ''team_id'' of
           Inl e \<Rightarrow> (Inl e, s)
         | Inr team_id \<Rightarrow>
             (let response_url = opt_prop (job_data j) ''response_url''
              in if truthy response_url then
                   falls (replyToResponseUrl w response_url (CaseReceived (opt_prop (job_data j) ''subject'')) s)
                 else (Inr Fall, s)))
      else (Inr Fall, s))"

text \<open>The five blocks in the order of the source; a block runs only if the one before fell through.\<close>

definition and_then ::
  "(thrown + flow) \<times> wstate \<Rightarrow> (wstate \<Rightarrow> (thrown + flow) \<times> wstate) \<Rightarrow> (thrown + flow) \<times> wstate" where
  "and_then r k = (case r of (Inr Fall, s) \<Rightarrow> k s | (Inr Return, s) \<Rightarrow> (Inr Return, s) | (Inl e, s) \<Rightarrow> (Inl e, s))"

definition handlers :: "wworld \<Rightarrow> job \<Rightarrow> wstate \<Rightarrow> (thrown + flow) \<times> wstate" where
  "handlers w j s =
     and_then (slack_interaction w j s) (\<lambda>s1.
     and_then (slack_command w j s1) (\<lambda>s2.
     and_then (verify_user w j s2) (\<lambda>s3.
     and_then (create_contact w j s3) (\<lambda>s4.
     create_case w j s4))))"

subsection \<open>The processor\<close>

definition correlationId :: "wworld \<Rightarrow> job \<Rightarrow> js" where
  "correlationId w j =
     js_or (opt_prop (job_data j) ''correlation_id'')
           (JStr (''job-'' @ job_id j @ ''-'' @ show_int (date_now w)))"

definition entry :: "wworld \<Rightarrow> job \<Rightarrow> string \<Rightarrow> js \<Rightarrow> audit_entry" where
  "entry w j st p =
     \<lparr>source = ''queue'', action = job_name j, entry_status = st,
      correlation_id = correlationId w j, payload = p\<rparr>"

definition started_entry :: "wworld \<Rightarrow> job \<Rightarrow> audit_entry" where
  "started_entry w j = entry w j ''started'' (js_or (job_data j) (JObj []))"

definition completed_entry :: "wworld \<Rightarrow> job \<Rightarrow> audit_entry" where
  "completed_entry w j = entry w j ''completed'' (js_or (job_data j) (JObj []))"

definition failed_entry :: "wworld \<Rightarrow> job \<Rightarrow> thrown \<Rightarrow> audit_entry" where
  "failed_entry w j err =
     entry w j ''failed''
       (JObj [(''error'', JStr (getErrorMessage err)), (''originalPayload'', js_or (job_data j) (JObj []))])"

text \<open>The \<^verbatim>\<open>catch\<close> block: write the failed entry, then \<^verbatim>\<open>throw err\<close>.\<close>

definition on_catch :: "wworld \<Rightarrow> job \<Rightarrow> thrown \<Rightarrow> wstate \<Rightarrow> (thrown + js) \<times> wstate" where
  "on_catch w j err s =
     (case insert_audit w (failed_entry w j err) s of
        (Inl e2, s') \<Rightarrow> (Inl e2, s')
      | (Inr u, s') \<Rightarrow> (Inl err, s'))"

text \<open>
  What the processor does once the handler blocks have ended with \<open>x\<close>: a \<^verbatim>\<open>throw\<close> goes to
  the \<^verbatim>\<open>catch\<close> block; a \<^verbatim>\<open>return;\<close> in a handler block makes the processor return
  \<^verbatim>\<open>undefined\<close>; otherwise the completed write follows, still inside the \<^verbatim>\<open>try\<close>.
\<close>

definition finish :: "wworld \<Rightarrow> job \<Rightarrow> (thrown + flow) \<times> wstate \<Rightarrow> (thrown + js) \<times> wstate" where
  "finish w j x =
     (case x of
        (Inl err, s2) \<Rightarrow> on_catch w j err s2
      | (Inr Return, s2) \<Rightarrow> (Inr JUndefined, s2)
      | (Inr Fall, s2) \<Rightarrow>
          (case insert_audit w (completed_entry w j) s2 of
             (Inl err, s3) \<Rightarrow> on_catch w j err s3
           | (Inr u, s3) \<Rightarrow>
               (Inr (JObj [(''ok'', JBool True), (''processedAt'', JStr (iso_now w))]), s3)))"

text \<open>
  The function given to \<^verbatim>\<open>new Worker("barry-jobs", ...)\<close>. The started write is outside the
  \<^verbatim>\<open>try\<close>; the handlers and the completed write are inside it.
\<close>

definition process :: "wworld \<Rightarrow> job \<Rightarrow> wstate \<Rightarrow> (thrown + js) \<times> wstate" where
  "process w j s =
     (case insert_audit w (started_entry w j) s of
        (Inl e, s1) \<Rightarrow> (Inl e, s1)
      | (Inr u, s1) \<Rightarrow> finish w j (handlers w j s1))"

section \<open>Vocabulary of the properties\<close>

text \<open>The cached credential once a refresh has settled with \<open>out\<close>.\<close>

definition cache_after :: "sf_state \<Rightarrow> thrown + TokenCache \<Rightarrow> TokenCache option" where
  "cache_after st out = (case out of Inl e \<Rightarrow> tokenCache st | Inr c \<Rightarrow> Some c)"

text \<open>
  The refresh failures the specification lists: the token endpoint cannot be reached or
  its body cannot be read, the status is not a success, the body is malformed, or one of
  the two required fields is missing.
\<close>

definition refresh_fails :: "config \<Rightarrow> fetch_result \<Rightarrow> bool" where
  "refresh_fails cfg res =
     (case res of
        Inl e \<Rightarrow> True
      | Inr r \<Rightarrow>
          (case text_result r of
             Inl e \<Rightarrow> True
           | Inr txt \<Rightarrow>
               \<not> ok r \<or>
               (case read_token_response cfg txt of
                  Inl e \<Rightarrow> True
                | Inr (a, i) \<Rightarrow> a = None \<or> i = None)))"

text \<open>Audit writes among the logged calls, and the closing ones among them.\<close>

fun is_insert :: "call \<Rightarrow> bool" where
  "is_insert (DbInsert e) = True"
| "is_insert c = False"

fun is_closing :: "call \<Rightarrow> bool" where
  "is_closing (DbInsert e) = (entry_status e = ''completed'' \<or> entry_status e = ''failed'')"
| "is_closing c = False"

text \<open>\<open>quiet s s'\<close>: from \<open>s\<close> to \<open>s'\<close> calls were made, none of them an audit write.\<close>

definition quiet :: "wstate \<Rightarrow> wstate \<Rightarrow> bool" where
  "quiet s s' =
     (\<exists>cs. calls s' = calls s @ cs \<and> list_all (\<lambda>c. \<not> is_insert c) cs \<and> audit_log s' = audit_log s)"

text \<open>The state in which the handlers start: the started row has been accepted.\<close>

definition after_started :: "wworld \<Rightarrow> job \<Rightarrow> wstate \<Rightarrow> wstate" where
  "after_started w j s =
     \<lparr>calls = calls s @ [DbInsert (started_entry w j)], audit_log = audit_log s @ [started_entry w j]\<rparr>"

text \<open>The job names the processor has a block for.\<close>

definition registered :: "string list" where
  "registered = [''slack-interaction'', ''slack-command'', ''verify-user'', ''create-contact'', ''create-case'']"

section \<open>Concrete scenarios\<close>

definition fixture_reader :: "string \<Rightarrow> thrown + (string option \<times> string option)" where
  "fixture_reader txt =
     (if txt = ''good'' then Inr (Some ''T1'', Some ''https://na1.example'')
      else if txt = ''nofields'' then Inr (None, None)
      else Inl (ErrorObj ''Unexpected token''))"

text \<open>
  Every number in these scenarios is a whole number far below \<open>2 ^ 53\<close>, where the arithmetic
  of doubles is exact; the rounding of the scenarios therefore leaves each result as it is.
\<close>

definition fixture_config :: config where
  "fixture_config =
     \<lparr>SF_LOGIN_URL = ''https://login.salesforce.com'', SF_API_VERSION = ''60.0'',
      SKEW_SECONDS = Fin 60, to_double = Fin, read_token_response = fixture_reader\<rparr>"

definition zero_skew_config :: config where
  "zero_skew_config = fixture_config\<lparr>SKEW_SECONDS := Fin 0\<rparr>"

definition good_answer :: fetch_result where
  "good_answer = Inr \<lparr>status = 200, text_result = Inr ''good''\<rparr>"

definition bad_answer :: fetch_result where
  "bad_answer = Inr \<lparr>status = 400, text_result = Inr ''invalid_grant''\<rparr>"

definition fresh_token :: "real \<Rightarrow> TokenCache" where
  "fresh_token e = \<lparr>accessToken = ''T1'', instanceUrl = ''https://na1.example'', expiresAt = Fin e\<rparr>"

definition old_token :: TokenCache where
  "old_token = \<lparr>accessToken = ''T0'', instanceUrl = ''https://na0.example'', expiresAt = Fin 5000\<rparr>"

definition idle_state :: sf_state where
  "idle_state = \<lparr>tokenCache = None, refreshing = None, promises = [], issuerCalls = []\<rparr>"

definition cached_run :: sf_run where
  "cached_run =
     \<lparr>sf = \<lparr>tokenCache = Some old_token, refreshing = None, promises = [], issuerCalls = []\<rparr>,
      apiCalls = [], ticks = 0\<rparr>"


definition server_error :: http_response where
  "server_error = \<lparr>status = 500, text_result = Inr ''boom''\<rparr>"


definition failing_world :: world where
  "failing_world =
     \<lparr>issuer = (\<lambda>n. bad_answer), api = (\<lambda>n req. Inr server_error), clock = (\<lambda>k. 1000 + int k)\<rparr>"




definition plain_options :: SfRequestOptions where
  "plain_options = \<lparr>noRetry = None, extraHeaders = None, init_rest = [(''method'', ''GET'')]\<rparr>"

definition quiet_world :: wworld where
  "quiet_world =
     \<lparr>date_now = 1000, iso_now = ''2026-01-01T00:00:00.000Z'',
      env_var = (\<lambda>n. None), db_insert = (\<lambda>n. None), db_select = (\<lambda>n. Inr []),
      http = (\<lambda>n. Inr \<lparr>status = 200, text_result = Inr ''ok''\<rparr>),
      sf_json = (\<lambda>n. Inr (JObj [])), parse_json = (\<lambda>t. Inr (JObj [])),
      type_error = (\<lambda>k. ErrorObj (''Cannot read properties of undefined (reading '' @ k @ '')'')),
      number_to_string = (\<lambda>n. case n of Fin x \<Rightarrow> show_int \<lfloor>x\<rfloor> | _ \<Rightarrow> ''NaN'')\<rparr>"

definition broken_db_world :: wworld where
  "broken_db_world = quiet_world\<lparr>db_insert := (\<lambda>n. Some (ErrorObj ''connection refused''))\<rparr>"

definition fresh_worker :: wstate where
  "fresh_worker = \<lparr>calls = [], audit_log = []\<rparr>"

definition noop_job :: job where
  "noop_job = \<lparr>job_id = ''42'', job_name = ''noop-unknown'', attemptsMade = 0, job_data = JObj []\<rparr>"

definition command_job :: job where
  "command_job =
     \<lparr>job_id = ''43'', job_name = ''slack-command'', attemptsMade = 0,
      job_data = JObj [(''correlation_id'', JStr ''c-1'')]\<rparr>"

definition silent_verify_job :: job where
  "silent_verify_job =
     \<lparr>job_id = ''45'', job_name = ''verify-user'', attemptsMade = 0,
      job_data = JObj [(''correlation_id'', JStr ''c-2''), (''team_id'', JStr ''T1''),
                       (''channel_id'', JStr ''C1''), (''user_id'', JStr ''U1''),
                       (''email'', JStr ''user@example.com'')]\<rparr>"

definition blank_id_job :: job where
  "blank_id_job =
     \<lparr>job_id = ''44'', job_name = ''noop-unknown'', attemptsMade = 0,
      job_data = JObj [(''correlation_id'', JStr [])]\<rparr>"

section \<open>Properties of the credential manager\<close>

lemma refresh_outcome_expiry:
  assumes "refresh_outcome cfg res now = Inr c"
  shows "expiresAt c = computeExpiresAtConservative cfg now default_ttl_seconds"
  using assms
  by (auto simp: refresh_outcome_def split: sum.splits if_splits option.splits prod.splits)

lemma computeExpiresAtConservative_exact:
  assumes "SKEW_SECONDS cfg = Fin s"
    and "to_double cfg (600 - s) = Fin (600 - s)"
    and "to_double cfg ((600 - s) * 1000) = Fin ((600 - s) * 1000)"
    and "to_double cfg (real_of_int now + (600 - s) * 1000) = Fin (real_of_int now + (600 - s) * 1000)"
  shows "computeExpiresAtConservative cfg now default_ttl_seconds = Fin (real_of_int now + (600 - s) * 1000)"
  using assms by (simp add: computeExpiresAtConservative_def default_ttl_seconds_def num_sub_def)

lemma tokenCache_settle_ok:
  "refresh_outcome cfg res now = Inr c \<Longrightarrow> tokenCache (refresh_settle cfg p res now st) = Some c"
  by (simp add: refresh_settle_def)

lemma tokenCache_settle_fail:
  "refresh_outcome cfg res now = Inl e \<Longrightarrow> tokenCache (refresh_settle cfg p res now st) = tokenCache st"
  by (simp add: refresh_settle_def)

text \<open>
  Claim C7, as the code has it. A successful refresh stores the credential it returns, whose
  \<open>expiresAt\<close> is computed in doubles as \<open>now + (assumedTtl - skew) * 1000\<close> (milliseconds), with
  \<open>assumedTtl\<close> the fixed 600 seconds and \<open>skew\<close> the configured \<open>SKEW_SECONDS\<close>, which nothing
  validates. Whenever the skew is a finite number \<open>s\<close> and the subtraction, the multiplication
  and the addition round nothing, \<open>expiresAt\<close> is exactly \<open>now + (600 - s) * 1000\<close>, and it is
  strictly below \<open>now + 600 * 1000\<close> exactly when the skew is positive.
\<close>

theorem expiresAt_conservative:
  assumes "refresh_outcome cfg res now = Inr c"
    and "SKEW_SECONDS cfg = Fin s"
    and "to_double cfg (600 - s) = Fin (600 - s)"
    and "to_double cfg ((600 - s) * 1000) = Fin ((600 - s) * 1000)"
    and "to_double cfg (real_of_int now + (600 - s) * 1000) = Fin (real_of_int now + (600 - s) * 1000)"
  shows "tokenCache (refresh_settle cfg p res now st) = Some c
       \<and> expiresAt c = Fin (real_of_int now + (600 - s) * 1000)
       \<and> (num_gt (Fin (real_of_int now + 600 * 1000)) (expiresAt c) \<longleftrightarrow> 0 < s)"
proof -
  have e: "expiresAt c = Fin (real_of_int now + (600 - s) * 1000)"
    using refresh_outcome_expiry [OF assms(1)] computeExpiresAtConservative_exact [OF assms(2-5)]
    by simp
  show ?thesis
    using e tokenCache_settle_ok [OF assms(1)] by simp
qed

lemma run_append:
  "run cfg (xs @ ys) s = (case run cfg xs s of None \<Rightarrow> None | Some s' \<Rightarrow> run cfg ys s')"
  by (induction xs arbitrary: s) (auto split: option.splits)

lemma getAccessToken_call_invalid:
  "\<not> isValid now (tokenCache st) \<Longrightarrow>
   getAccessToken_call cfg now st = (case refreshAccessToken_call cfg st of (p, st') \<Rightarrow> (Awaits p, st'))"
  by (auto simp: getAccessToken_call_def split: option.splits bool.splits)

lemma step_Need_join:
  assumes "refreshing (modst s) = Some p" and "\<not> isValid now (tokenCache (modst s))"
  shows "step cfg (Need c now) s = Some \<lparr>modst = modst s, handles = handles s @ [(c, Awaits p)]\<rparr>"
  using assms by (simp add: getAccessToken_call_invalid refreshAccessToken_call_def)

lemma step_Need_begin:
  assumes "refreshing (modst s) = None" and "\<not> isValid now (tokenCache (modst s))"
  shows "step cfg (Need c now) s =
    Some \<lparr>modst = refresh_begin cfg (modst s), handles = handles s @ [(c, Awaits (length (promises (modst s))))]\<rparr>"
  using assms by (simp add: getAccessToken_call_invalid refreshAccessToken_call_def)

lemma run_needs_join:
  assumes "refreshing (modst s) = Some p"
    and "\<forall>(c, t) \<in> set cs. \<not> isValid t (tokenCache (modst s))"
  shows "run cfg (needs cs) s =
    Some \<lparr>modst = modst s, handles = handles s @ map (\<lambda>(c, t). (c, Awaits p)) cs\<rparr>"
  using assms
proof (induction cs arbitrary: s)
  case Nil
  then show ?case by (simp add: needs_def)
next
  case (Cons a cs)
  obtain c t where a: "a = (c, t)" by (cases a)
  let ?s1 = "\<lparr>modst = modst s, handles = handles s @ [(c, Awaits p)]\<rparr>"
  have st: "step cfg (Need c t) s = Some ?s1"
    using Cons.prems a by (intro step_Need_join) auto
  have "run cfg (needs cs) ?s1 =
    Some \<lparr>modst = modst ?s1, handles = handles ?s1 @ map (\<lambda>(c, t). (c, Awaits p)) cs\<rparr>"
    using Cons.prems by (intro Cons.IH) auto
  then show ?case using st a by (simp add: needs_def)
qed

lemma map_of_const:
  "(c, t) \<in> set cs \<Longrightarrow> map_of (map (\<lambda>(c, t). (c, v)) cs) c = Some v"
  by (induction cs) auto


lemma settle_begin_props:
  shows "refreshing (refresh_settle cfg (length (promises st)) res now (refresh_begin cfg st)) = Some (length (promises st))"
    and "tokenCache (refresh_settle cfg (length (promises st)) res now (refresh_begin cfg st)) = cache_after st (refresh_outcome cfg res now)"
    and "issuerCalls (refresh_settle cfg (length (promises st)) res now (refresh_begin cfg st)) = issuerCalls st @ [token_url cfg]"
    and "promise_state (refresh_settle cfg (length (promises st)) res now (refresh_begin cfg st)) (length (promises st)) = Some (refresh_outcome cfg res now)"
    and "is_pending (refresh_begin cfg st) (length (promises st))"
    and "refreshing (refresh_begin cfg st) = Some (length (promises st))"
    and "tokenCache (refresh_begin cfg st) = tokenCache st"
  by (auto simp: refresh_settle_def refresh_begin_def cache_after_def promise_state_def is_pending_def
      split: sum.splits)

text \<open>
  Claim C1. No refresh is in flight and the cache is invalid. Callers \<open>c0\<close>, then those of
  \<open>cs1\<close>, call \<^verbatim>\<open>getAccessToken\<close>, each at a moment when the cache is invalid; the token
  endpoint answers; the callers of \<open>cs2\<close> arrive after the answer but before the starter's
  \<^verbatim>\<open>finally\<close> has run, still finding the cache invalid; then the starter resumes. Whatever the
  number of callers, exactly one POST went to the token endpoint, and every caller has
  resolved with the outcome of that one refresh: its credential, or its failure.
\<close>

theorem single_flight_refresh:
  assumes idle: "refreshing st = None"
    and first: "\<not> isValid t0 (tokenCache st)"
    and early: "\<forall>(c, t) \<in> set cs1. \<not> isValid t (tokenCache st)"
    and late: "\<forall>(c, t) \<in> set cs2. \<not> isValid t (cache_after st (refresh_outcome cfg res now))"
  shows "\<exists>s'. run cfg (needs ((c0, t0) # cs1) @ [Answer res now] @ needs cs2 @ [Resume])
                 \<lparr>modst = st, handles = []\<rparr> = Some s'
           \<and> issuerCalls (modst s') = issuerCalls st @ [token_url cfg]
           \<and> (\<forall>(c, t) \<in> set ((c0, t0) # cs1 @ cs2). outcome_of s' c = Some (refresh_outcome cfg res now))
           \<and> refreshing (modst s') = None"
proof -
  define p where "p = length (promises st)"
  define out where "out = refresh_outcome cfg res now"
  define m1 where "m1 = refresh_begin cfg st"
  define m2 where "m2 = refresh_settle cfg p res now m1"
  define h1 where "h1 = (c0, Awaits p) # map (\<lambda>(c, t). (c, Awaits p)) cs1"
  define h2 where "h2 = h1 @ map (\<lambda>(c, t). (c, Awaits p)) cs2"
  have props: "refreshing m2 = Some p" "tokenCache m2 = cache_after st out"
    "issuerCalls m2 = issuerCalls st @ [token_url cfg]" "promise_state m2 p = Some out"
    "is_pending m1 p" "refreshing m1 = Some p" "tokenCache m1 = tokenCache st"
    unfolding m2_def m1_def p_def out_def by (rule settle_begin_props)+
  have a: "step cfg (Need c0 t0) \<lparr>modst = st, handles = []\<rparr> = Some \<lparr>modst = m1, handles = [(c0, Awaits p)]\<rparr>"
    using step_Need_begin [of "\<lparr>modst = st, handles = []\<rparr>" t0 cfg c0] idle first
    by (simp add: m1_def p_def)
  have b: "run cfg (needs cs1) \<lparr>modst = m1, handles = [(c0, Awaits p)]\<rparr> = Some \<lparr>modst = m1, handles = h1\<rparr>"
    using run_needs_join [of "\<lparr>modst = m1, handles = [(c0, Awaits p)]\<rparr>" p cs1 cfg] early props(6,7)
    by (simp add: h1_def)
  have c: "step cfg (Answer res now) \<lparr>modst = m1, handles = h1\<rparr> = Some \<lparr>modst = m2, handles = h1\<rparr>"
    using props(5,6) by (simp add: m2_def)
  have d: "run cfg (needs cs2) \<lparr>modst = m2, handles = h1\<rparr> = Some \<lparr>modst = m2, handles = h2\<rparr>"
    using run_needs_join [of "\<lparr>modst = m2, handles = h1\<rparr>" p cs2 cfg] late props(1,2)
    by (simp add: h2_def out_def)
  have e: "step cfg Resume \<lparr>modst = m2, handles = h2\<rparr> = Some \<lparr>modst = refresh_finally m2, handles = h2\<rparr>"
    using props(1,4) by simp
  let ?s' = "\<lparr>modst = refresh_finally m2, handles = h2\<rparr>"
  have r: "run cfg (needs ((c0, t0) # cs1) @ [Answer res now] @ needs cs2 @ [Resume])
             \<lparr>modst = st, handles = []\<rparr> = Some ?s'"
    using a b c d e by (simp add: run_append needs_def)
  have h2_eq: "h2 = map (\<lambda>(c, t). (c, Awaits p)) ((c0, t0) # cs1 @ cs2)"
    by (simp add: h2_def h1_def)
  have o: "outcome_of ?s' c = Some out" if "(c, t) \<in> set ((c0, t0) # cs1 @ cs2)" for c t
  proof -
    have "map_of h2 c = Some (Awaits p)"
      unfolding h2_eq using that by (rule map_of_const)
    moreover have "promise_state (refresh_finally m2) p = Some out"
      using props(4) by (simp add: promise_state_def refresh_finally_def split: if_splits)
    ultimately show ?thesis by (simp add: outcome_of_def)
  qed
  have "issuerCalls (modst ?s') = issuerCalls st @ [token_url cfg]"
    using props(3) by (simp add: refresh_finally_def)
  moreover have "refreshing (modst ?s') = None"
    by (simp add: refresh_finally_def)
  ultimately show ?thesis using r o unfolding out_def by blast
qed


lemma refresh_fails_outcome:
  "refresh_fails cfg res \<Longrightarrow> \<exists>e. refresh_outcome cfg res now = Inl e"
  by (auto simp: refresh_fails_def refresh_outcome_def truthy_str_def
      split: sum.splits prod.splits option.splits)

lemma refreshAccessToken_idle:
  assumes "refreshing (sf r) = None"
  shows "refreshAccessToken cfg w r =
    (let res = issuer w (length (issuerCalls (sf r)));
         now = clock w (ticks r);
         out = refresh_outcome cfg res now
     in (out, r\<lparr>sf := refresh_finally (refresh_settle cfg (length (promises (sf r))) res now (refresh_begin cfg (sf r))),
                 ticks := (case out of Inl e \<Rightarrow> ticks r | Inr c \<Rightarrow> Suc (ticks r))\<rparr>))"
  using assms
  by (simp add: refreshAccessToken_def refreshAccessToken_call_def await_refresh_def
      promise_state_def refresh_begin_def Let_def split: sum.splits)

lemma refreshAccessToken_cache:
  "tokenCache (sf (snd (refreshAccessToken cfg w r))) =
     (case fst (refreshAccessToken cfg w r) of
        Inl e \<Rightarrow> tokenCache (sf r)
      | Inr c \<Rightarrow> if refreshing (sf r) = None \<or> (\<exists>p. refreshing (sf r) = Some p \<and> promise_state (sf r) p = None) then Some c else tokenCache (sf r))"
  by (auto simp: refreshAccessToken_def refreshAccessToken_call_def await_refresh_def
      refresh_begin_def refresh_settle_def refresh_finally_def Let_def promise_state_def
      split: option.splits sum.splits)

text \<open>
  Claim C6. When a call of \<^verbatim>\<open>refreshAccessToken\<close> starts a refresh and the token endpoint's
  answer is a failure (unreachable, unreadable, a non-success status, a malformed body, a
  missing \<^verbatim>\<open>access_token\<close> or \<^verbatim>\<open>instance_url\<close>), the call raises an error and \<^verbatim>\<open>tokenCache\<close> is
  what it was before the call.
\<close>

theorem refresh_failure_keeps_cache:
  assumes "refreshing (sf r) = None"
    and "refresh_fails cfg (issuer w (length (issuerCalls (sf r))))"
  shows "\<exists>e. fst (refreshAccessToken cfg w r) = Inl e
           \<and> tokenCache (sf (snd (refreshAccessToken cfg w r))) = tokenCache (sf r)"
proof -
  obtain e where e: "refresh_outcome cfg (issuer w (length (issuerCalls (sf r)))) (clock w (ticks r)) = Inl e"
    using refresh_fails_outcome [OF assms(2)] by blast
  have "fst (refreshAccessToken cfg w r) = Inl e"
    using e by (simp add: refreshAccessToken_idle [OF assms(1)] Let_def)
  then show ?thesis
    using refreshAccessToken_cache [of cfg w r] by simp
qed

lemma refreshAccessToken_resets:
  "refreshing (sf (snd (refreshAccessToken cfg w r))) = None"
  by (auto simp: refreshAccessToken_def refreshAccessToken_call_def await_refresh_def
      refresh_finally_def Let_def split: option.splits prod.splits)

text \<open>
  Claim C10. A call of \<^verbatim>\<open>refreshAccessToken\<close> made while nothing is in flight, run to its
  end (the answer \<open>res\<close> may be a success or a failure), leaves \<^verbatim>\<open>refreshing\<close> null and the
  caller holding the refresh's outcome. If the refresh failed, a later \<^verbatim>\<open>getAccessToken\<close> by
  another caller \<open>c'\<close>, made while the cache is invalid, sends a new POST and waits for a
  new, pending promise; the failed one stays with the first caller only.
\<close>

theorem refreshing_reset_after_settle:
  assumes idle: "refreshing st = None"
  shows "\<exists>s1. run cfg [Force c, Answer res now, Resume] \<lparr>modst = st, handles = []\<rparr> = Some s1
          \<and> refreshing (modst s1) = None
          \<and> outcome_of s1 c = Some (refresh_outcome cfg res now)
          \<and> (\<forall>e. refresh_outcome cfg res now = Inl e \<and> \<not> isValid now' (tokenCache st) \<and> c' \<noteq> c \<longrightarrow>
               (\<exists>s2. step cfg (Need c' now') s1 = Some s2
                  \<and> issuerCalls (modst s2) = issuerCalls (modst s1) @ [token_url cfg]
                  \<and> map_of (handles s2) c' = Some (Awaits (Suc (length (promises st))))
                  \<and> is_pending (modst s2) (Suc (length (promises st)))
                  \<and> outcome_of s2 c = Some (Inl e)))"
proof -
  define p where "p = length (promises st)"
  define out where "out = refresh_outcome cfg res now"
  define m1 where "m1 = refresh_begin cfg st"
  define m2 where "m2 = refresh_settle cfg p res now m1"
  define m3 where "m3 = refresh_finally m2"
  have props: "refreshing m2 = Some p" "tokenCache m2 = cache_after st out"
    "issuerCalls m2 = issuerCalls st @ [token_url cfg]" "promise_state m2 p = Some out"
    "is_pending m1 p" "refreshing m1 = Some p" "tokenCache m1 = tokenCache st"
    unfolding m2_def m1_def p_def out_def by (rule settle_begin_props)+
  let ?s1 = "\<lparr>modst = m3, handles = [(c, Awaits p)]\<rparr>"
  have r: "run cfg [Force c, Answer res now, Resume] \<lparr>modst = st, handles = []\<rparr> = Some ?s1"
    using idle props by (simp add: refreshAccessToken_call_def m1_def [symmetric] p_def [symmetric]
        m2_def [symmetric] m3_def)
  have len: "length (promises m3) = Suc p"
    by (simp add: m3_def m2_def m1_def refresh_finally_def refresh_settle_def refresh_begin_def p_def
        split: sum.splits)
  have ps: "promise_state m3 p = Some out"
    using props(4) by (simp add: m3_def promise_state_def refresh_finally_def split: if_splits)
  have idle3: "refreshing m3 = None" by (simp add: m3_def refresh_finally_def)
  have o1: "outcome_of ?s1 c = Some out" using ps by (simp add: outcome_of_def)
  have later: "\<exists>s2. step cfg (Need c' now') ?s1 = Some s2
                  \<and> issuerCalls (modst s2) = issuerCalls (modst ?s1) @ [token_url cfg]
                  \<and> map_of (handles s2) c' = Some (Awaits (Suc p))
                  \<and> is_pending (modst s2) (Suc p)
                  \<and> outcome_of s2 c = Some (Inl e)"
    if f: "out = Inl e" and inv: "\<not> isValid now' (tokenCache st)" and ne: "c' \<noteq> c" for e
  proof -
    have tc: "tokenCache m3 = tokenCache st"
      using props(2) f by (simp add: m3_def refresh_finally_def cache_after_def)
    have st: "step cfg (Need c' now') ?s1 =
        Some \<lparr>modst = refresh_begin cfg m3, handles = [(c, Awaits p), (c', Awaits (Suc p))]\<rparr>"
      using step_Need_begin [of ?s1 now' cfg c'] idle3 inv tc len by simp
    have "promise_state (refresh_begin cfg m3) p = Some out"
      using ps len by (simp add: promise_state_def refresh_begin_def nth_append split: if_splits)
    then show ?thesis
      using st ne f len
      by (simp add: outcome_of_def refresh_begin_def is_pending_def nth_append)
  qed
  show ?thesis
    apply (rule exI [of _ ?s1])
    using r idle3 o1 later by (simp add: out_def p_def)
qed



lemma getAccessToken_idle:
  "refreshing (sf r) = None \<Longrightarrow> refreshing (sf (snd (getAccessToken cfg w r))) = None"
  by (auto simp: getAccessToken_def refreshAccessToken_resets Let_def split: option.splits)


text \<open>
  Claim C8. Once the credential is obtained, a first response that is not an authentication
  failure (every status other than 401 and other than 403 with an invalid-session body, so
  every other 4xx and every 5xx) is returned as it is; the state is the one left by
  obtaining the credential with the single request logged: no refresh follows the response
  and no retry is sent.
\<close>

theorem sfFetch_returns_other_errors:
  assumes "getAccessToken cfg w r = (Inr cache, r1)"
    and "api w (length (apiCalls r1)) (first_request cache path options) = Inr res"
    and "\<not> isAuthFailure (status res) (Some (body_or_empty res))"
  shows "sfFetch cfg w path options r =
           (Inr res, r1\<lparr>apiCalls := apiCalls r1 @ [first_request cache path options]\<rparr>)"
  using assms by (simp add: sfFetch_def do_fetch_def)




section \<open>Properties of the job worker\<close>



lemma quiet_refl: "quiet s s"
  by (simp add: quiet_def)

lemma quiet_trans: "quiet s s1 \<Longrightarrow> quiet s1 s2 \<Longrightarrow> quiet s s2"
  by (auto simp: quiet_def)

lemma quiet_fetch_post: "fetch_post w u b s = (r, s') \<Longrightarrow> quiet s s'"
  by (auto simp: fetch_post_def quiet_def)

lemma quiet_sf_call: "sf_call w p b s = (r, s') \<Longrightarrow> quiet s s'"
  by (auto simp: sf_call_def quiet_def)

lemma quiet_select: "quiet s (s\<lparr>calls := calls s @ [DbSelect a b]\<rparr>)"
  by (simp add: quiet_def)

lemma quiet_reply: "replyToResponseUrl w u b s = (r, s') \<Longrightarrow> quiet s s'"
  by (auto simp: replyToResponseUrl_def split: prod.splits sum.splits if_splits dest: quiet_fetch_post)

lemma quiet_update: "slackUpdateMessage w t c ts s = (r, s') \<Longrightarrow> quiet s s'"
  by (auto simp: slackUpdateMessage_def split: prod.splits sum.splits if_splits dest: quiet_fetch_post)

lemma quiet_validate: "sfValidateUser w a b c d s = (r, s') \<Longrightarrow> quiet s s'"
  by (auto simp: sfValidateUser_def dest: quiet_sf_call)

lemma quiet_create: "sfCreateContact w d s = (r, s') \<Longrightarrow> quiet s s'"
  by (auto simp: sfCreateContact_def dest: quiet_sf_call)

lemma quiet_hvr: "handleValidationResult w res e u s = (r, s') \<Longrightarrow> quiet s s'"
  by (auto simp: handleValidationResult_def quiet_refl split: sum.splits if_splits dest: quiet_reply)

lemma quiet_falls: "falls x = (r, s') \<Longrightarrow> quiet s (snd x) \<Longrightarrow> quiet s s'"
  by (auto simp: falls_def split: prod.splits sum.splits)


lemma quiet_hccc: "handleCreateCaseCommand w p s = (r, s') \<Longrightarrow> quiet s s'"
proof -
  assume a: "handleCreateCaseCommand w p s = (r, s')"
  show ?thesis
  proof (cases "truthy (opt_prop p ''response_url'') \<and> truthy (opt_prop p ''team_id'')
      \<and> truthy (opt_prop p ''channel_id'') \<and> truthy (opt_prop p ''user_id'')")
    case False
    then have "s' = s" using a by (auto simp: handleCreateCaseCommand_def Let_def split: if_splits)
    then show ?thesis by (simp add: quiet_refl)
  next
    case True
    obtain r1 s1 where r1: "replyToResponseUrl w (opt_prop p ''response_url'') Verifying s = (r1, s1)"
      by (cases "replyToResponseUrl w (opt_prop p ''response_url'') Verifying s")
    have q1: "quiet s s1" using r1 by (rule quiet_reply)
    let ?s2 = "s1\<lparr>calls := calls s1 @ [DbSelect (opt_prop p ''team_id'') (opt_prop p ''user_id'')]\<rparr>"
    have q2: "quiet s ?s2" using q1 quiet_select by (rule quiet_trans)
    show ?thesis
    proof (cases r1)
      case (Inl e)
      then have "s' = s1" using a True r1 by (simp add: handleCreateCaseCommand_def Let_def)
      then show ?thesis using q1 by simp
    next
      case (Inr u)
      show ?thesis
      proof (cases "db_select w (length (calls s1))")
        case (Inl e)
        then have "s' = ?s2" using a True r1 Inr by (simp add: handleCreateCaseCommand_def Let_def)
        then show ?thesis using q2 by simp
      next
        case rows: (Inr rows)
        show ?thesis
        proof (cases rows)
          case Nil
          then have "replyToResponseUrl w (opt_prop p ''response_url'') EmailNotVerified ?s2 = (r, s')"
            using a True r1 Inr rows by (simp add: handleCreateCaseCommand_def Let_def)
          then show ?thesis using q2 quiet_reply quiet_trans by blast
        next
          case (Cons row rest)
          show ?thesis
          proof (cases "get_prop w row ''email''")
            case (Inl e)
            then have "s' = ?s2" using a True r1 Inr rows Cons
              by (simp add: handleCreateCaseCommand_def Let_def)
            then show ?thesis using q2 by simp
          next
            case em: (Inr email)
            obtain r3 s3 where r3: "sfValidateUser w (opt_prop p ''team_id'') (opt_prop p ''channel_id'')
                email (opt_prop p ''user_id'') ?s2 = (r3, s3)"
              by (cases "sfValidateUser w (opt_prop p ''team_id'') (opt_prop p ''channel_id'')
                email (opt_prop p ''user_id'') ?s2")
            have q3: "quiet s s3" using q2 quiet_validate [OF r3] by (rule quiet_trans)
            show ?thesis
            proof (cases r3)
              case (Inl e)
              then have "s' = s3" using a True r1 Inr rows Cons em r3
                by (simp add: handleCreateCaseCommand_def Let_def)
              then show ?thesis using q3 by simp
            next
              case res: (Inr result)
              then have "handleValidationResult w result email (opt_prop p ''response_url'') s3 = (r, s')"
                using a True r1 Inr rows Cons em r3
                by (simp add: handleCreateCaseCommand_def Let_def)
              then show ?thesis using q3 quiet_hvr quiet_trans by blast
            qed
          qed
        qed
      qed
    qed
  qed
qed

lemma quiet_slack_interaction: "slack_interaction w j s = (r, s') \<Longrightarrow> quiet s s'"
  by (auto simp: slack_interaction_def Let_def quiet_refl falls_def
      split: if_splits sum.splits prod.splits dest: quiet_update)

lemma quiet_slack_command: "slack_command w j s = (r, s') \<Longrightarrow> quiet s s'"
  by (auto simp: slack_command_def Let_def quiet_refl falls_def
      split: if_splits sum.splits prod.splits dest: quiet_hccc)

lemma quiet_verify_user: "verify_user w j s = (r, s') \<Longrightarrow> quiet s s'"
  by (auto simp: verify_user_def Let_def quiet_refl falls_def
      split: if_splits sum.splits prod.splits
      dest!: quiet_reply quiet_validate quiet_hvr intro: quiet_trans)

lemma quiet_create_contact: "create_contact w j s = (r, s') \<Longrightarrow> quiet s s'"
  by (auto simp: create_contact_def Let_def quiet_refl falls_def
      split: if_splits sum.splits prod.splits
      dest!: quiet_reply quiet_create intro: quiet_trans)

lemma quiet_create_case: "create_case w j s = (r, s') \<Longrightarrow> quiet s s'"
  by (auto simp: create_case_def Let_def quiet_refl falls_def
      split: if_splits sum.splits prod.splits dest!: quiet_reply)

lemma quiet_and_then:
  assumes "and_then x k = (r, s')" and "quiet s (snd x)"
    and "\<And>s1 r1 s2. quiet s s1 \<Longrightarrow> k s1 = (r1, s2) \<Longrightarrow> quiet s s2"
  shows "quiet s s'"
  using assms by (auto simp: and_then_def split: prod.splits sum.splits flow.splits)

lemma quiet_handlers: "handlers w j s = (r, s') \<Longrightarrow> quiet s s'"
  unfolding handlers_def
  apply (erule quiet_and_then)
   apply (metis quiet_slack_interaction prod.collapse)
  apply (erule quiet_and_then)
   apply (metis quiet_slack_command quiet_trans prod.collapse)
  apply (erule quiet_and_then)
   apply (metis quiet_verify_user quiet_trans prod.collapse)
  apply (erule quiet_and_then)
   apply (metis quiet_create_contact quiet_trans prod.collapse)
  apply (metis quiet_create_case quiet_trans)
  done



lemma insert_audit_ok:
  "db_insert w (length (calls s)) = None \<Longrightarrow>
   insert_audit w e s = (Inr (), \<lparr>calls = calls s @ [DbInsert e], audit_log = audit_log s @ [e]\<rparr>)"
  by (simp add: insert_audit_def)

lemma insert_audit_raises:
  "db_insert w (length (calls s)) = Some err \<Longrightarrow>
   insert_audit w e s = (Inl err, s\<lparr>calls := calls s @ [DbInsert e]\<rparr>)"
  by (simp add: insert_audit_def)

lemma on_catch_calls:
  "\<exists>cl. calls (snd (on_catch w j err s)) = calls s @ cl \<and> list_all is_closing cl \<and> cl \<noteq> []"
  by (auto simp: on_catch_def insert_audit_def failed_entry_def entry_def split: option.splits)

lemma finish_calls:
  "\<exists>cl. calls (snd (finish w j (r, s2))) = calls s2 @ cl \<and> list_all is_closing cl
     \<and> (r \<noteq> Inr Return \<longrightarrow> cl \<noteq> [])"
proof (cases r)
  case (Inl err)
  then show ?thesis using on_catch_calls [of w j err s2] by (simp add: finish_def)
next
  case (Inr f)
  show ?thesis
  proof (cases f)
    case Return
    then show ?thesis using Inr by (simp add: finish_def)
  next
    case Fall
    show ?thesis
    proof (cases "db_insert w (length (calls s2))")
      case None
      then show ?thesis using Inr Fall
        by (simp add: finish_def insert_audit_def completed_entry_def entry_def)
    next
      case (Some err)
      let ?s3 = "s2\<lparr>calls := calls s2 @ [DbInsert (completed_entry w j)]\<rparr>"
      obtain cl where "calls (snd (on_catch w j err ?s3)) = calls ?s3 @ cl" "list_all is_closing cl" "cl \<noteq> []"
        using on_catch_calls [of w j err ?s3] by blast
      then show ?thesis using Inr Fall Some
        by (simp add: finish_def insert_audit_def completed_entry_def entry_def)
    qed
  qed
qed

lemma process_started:
  "db_insert w (length (calls s)) = None \<Longrightarrow>
   process w j s = finish w j (handlers w j (after_started w j s))"
  by (simp add: process_def insert_audit_ok after_started_def)

text \<open>
  The order of the calls of one execution. If the started write raises, the processor fails
  with that very error, having made no other call. If it succeeds, the calls are the started
  write, then the calls \<open>hs\<close> of the handlers (none of them an audit write), then the closing
  writes \<open>cl\<close>, each a completed or a failed entry; a closing write is attempted unless a
  handler block left the processor with \<^verbatim>\<open>return;\<close>.
\<close>

lemma process_call_order:
  "(\<forall>e. db_insert w (length (calls s)) = Some e \<longrightarrow>
      process w j s = (Inl e, s\<lparr>calls := calls s @ [DbInsert (started_entry w j)]\<rparr>))
   \<and> (db_insert w (length (calls s)) = None \<longrightarrow>
      (\<exists>hs cl.
         calls (snd (handlers w j (after_started w j s))) = calls s @ [DbInsert (started_entry w j)] @ hs
       \<and> calls (snd (process w j s)) = calls s @ [DbInsert (started_entry w j)] @ hs @ cl
       \<and> list_all (\<lambda>c. \<not> is_insert c) hs
       \<and> list_all is_closing cl
       \<and> (fst (handlers w j (after_started w j s)) \<noteq> Inr Return \<longrightarrow> cl \<noteq> [])))"
proof (intro conjI allI impI)
  fix e assume "db_insert w (length (calls s)) = Some e"
  then show "process w j s = (Inl e, s\<lparr>calls := calls s @ [DbInsert (started_entry w j)]\<rparr>)"
    by (simp add: process_def insert_audit_raises)
next
  assume ok: "db_insert w (length (calls s)) = None"
  obtain r s2 where h: "handlers w j (after_started w j s) = (r, s2)"
    by (cases "handlers w j (after_started w j s)")
  from quiet_handlers [OF h] obtain hs where
    hs: "calls s2 = calls (after_started w j s) @ hs" "list_all (\<lambda>c. \<not> is_insert c) hs"
    by (auto simp: quiet_def)
  from finish_calls [of w j r s2] obtain cl where
    cl: "calls (snd (finish w j (r, s2))) = calls s2 @ cl" "list_all is_closing cl"
      "r \<noteq> Inr Return \<longrightarrow> cl \<noteq> []"
    by blast
  show "\<exists>hs cl.
         calls (snd (handlers w j (after_started w j s))) = calls s @ [DbInsert (started_entry w j)] @ hs
       \<and> calls (snd (process w j s)) = calls s @ [DbInsert (started_entry w j)] @ hs @ cl
       \<and> list_all (\<lambda>c. \<not> is_insert c) hs
       \<and> list_all is_closing cl
       \<and> (fst (handlers w j (after_started w j s)) \<noteq> Inr Return \<longrightarrow> cl \<noteq> [])"
    apply (rule exI [of _ hs], rule exI [of _ cl])
    using h hs cl by (simp add: process_started [OF ok] after_started_def)
qed


lemma handlers_unknown:
  "job_name j \<notin> set registered \<Longrightarrow> handlers w j s = (Inr Fall, s)"
  by (simp add: registered_def handlers_def and_then_def slack_interaction_def slack_command_def
      verify_user_def create_contact_def create_case_def)

text \<open>
  Claim C3, at a job the code mishandles. A \<^verbatim>\<open>verify-user\<close> job without \<^verbatim>\<open>response_url\<close>, with
  the database accepting every write: the started entry is written, the handler block ends
  with \<^verbatim>\<open>return;\<close>, and the processor returns \<^verbatim>\<open>undefined\<close> having made one call only, the started
  write. No completed and no failed entry follows the handler's completion.
\<close>

theorem verify_user_return_skips_closing_write:
  "process quiet_world silent_verify_job fresh_worker =
     (Inr JUndefined,
      \<lparr>calls =
         [DbInsert \<lparr>source = ''queue'', action = ''verify-user'', entry_status = ''started'',
                    correlation_id = JStr ''c-2'',
                    payload = JObj [(''correlation_id'', JStr ''c-2''), (''team_id'', JStr ''T1''),
                                    (''channel_id'', JStr ''C1''), (''user_id'', JStr ''U1''),
                                    (''email'', JStr ''user@example.com'')]\<rparr>],
       audit_log =
         [\<lparr>source = ''queue'', action = ''verify-user'', entry_status = ''started'',
           correlation_id = JStr ''c-2'',
           payload = JObj [(''correlation_id'', JStr ''c-2''), (''team_id'', JStr ''T1''),
                           (''channel_id'', JStr ''C1''), (''user_id'', JStr ''U1''),
                           (''email'', JStr ''user@example.com'')]\<rparr>]\<rparr>)"
  by (simp add: process_def finish_def insert_audit_def handlers_def and_then_def
      slack_interaction_def slack_command_def verify_user_def get_prop_def
      started_entry_def entry_def correlationId_def js_or_def
      quiet_world_def silent_verify_job_def fresh_worker_def)

text \<open>
  Claim C5. For a job whose name is none of the five names the processor has a block for,
  with the database accepting both writes, the processor makes exactly two calls: the
  insert of the started entry and the insert of the completed entry, each with source
  \<^verbatim>\<open>queue\<close>, the job's name as action, the execution's correlation id (the payload's
  \<^verbatim>\<open>correlation_id\<close> when truthy, else \<^verbatim>\<open>job-<id>-<now>\<close>) and the payload \<^verbatim>\<open>job.data || {}\<close>. So
  no Slack or Salesforce call is made, and the result is \<^verbatim>\<open>{ok: true, processedAt}\<close>.
\<close>

theorem unknown_job_is_noop:
  assumes unknown: "job_name j \<notin>
      {''slack-interaction'', ''slack-command'', ''verify-user'', ''create-contact'', ''create-case''}"
    and w1: "db_insert w (length (calls s)) = None"
    and w2: "db_insert w (Suc (length (calls s))) = None"
  shows "process w j s =
    (Inr (JObj [(''ok'', JBool True), (''processedAt'', JStr (iso_now w))]),
     \<lparr>calls = calls s @
        [DbInsert \<lparr>source = ''queue'', action = job_name j, entry_status = ''started'',
                   correlation_id = correlationId w j,
                   payload = (if truthy (job_data j) then job_data j else JObj [])\<rparr>,
         DbInsert \<lparr>source = ''queue'', action = job_name j, entry_status = ''completed'',
                   correlation_id = correlationId w j,
                   payload = (if truthy (job_data j) then job_data j else JObj [])\<rparr>],
      audit_log = audit_log s @
        [\<lparr>source = ''queue'', action = job_name j, entry_status = ''started'',
          correlation_id = correlationId w j,
          payload = (if truthy (job_data j) then job_data j else JObj [])\<rparr>,
         \<lparr>source = ''queue'', action = job_name j, entry_status = ''completed'',
          correlation_id = correlationId w j,
          payload = (if truthy (job_data j) then job_data j else JObj [])\<rparr>]\<rparr>)
    \<and> correlationId w j =
         (if truthy (opt_prop (job_data j) ''correlation_id'') then opt_prop (job_data j) ''correlation_id''
          else JStr (''job-'' @ job_id j @ ''-'' @ show_int (date_now w)))"
proof -
  have "job_name j \<notin> set registered"
    using unknown by (simp add: registered_def)
  then have "handlers w j (after_started w j s) = (Inr Fall, after_started w j s)"
    by (rule handlers_unknown)
  then have "process w j s =
    (Inr (JObj [(''ok'', JBool True), (''processedAt'', JStr (iso_now w))]),
     \<lparr>calls = calls s @
        [DbInsert \<lparr>source = ''queue'', action = job_name j, entry_status = ''started'',
                   correlation_id = correlationId w j,
                   payload = (if truthy (job_data j) then job_data j else JObj [])\<rparr>,
         DbInsert \<lparr>source = ''queue'', action = job_name j, entry_status = ''completed'',
                   correlation_id = correlationId w j,
                   payload = (if truthy (job_data j) then job_data j else JObj [])\<rparr>],
      audit_log = audit_log s @
        [\<lparr>source = ''queue'', action = job_name j, entry_status = ''started'',
          correlation_id = correlationId w j,
          payload = (if truthy (job_data j) then job_data j else JObj [])\<rparr>,
         \<lparr>source = ''queue'', action = job_name j, entry_status = ''completed'',
          correlation_id = correlationId w j,
          payload = (if truthy (job_data j) then job_data j else JObj [])\<rparr>]\<rparr>)"
    using w1 w2
    by (simp add: process_started finish_def insert_audit_ok after_started_def
        started_entry_def completed_entry_def entry_def js_or_def)
  moreover have "correlationId w j =
         (if truthy (opt_prop (job_data j) ''correlation_id'') then opt_prop (job_data j) ''correlation_id''
          else JStr (''job-'' @ job_id j @ ''-'' @ show_int (date_now w)))"
    by (simp add: correlationId_def js_or_def)
  ultimately show ?thesis by (rule conjI)
qed

lemma on_catch_log:
  "\<exists>es. audit_log (snd (on_catch w j err s)) = audit_log s @ es
     \<and> list_all (\<lambda>e. correlation_id e = correlationId w j) es"
  by (auto simp: on_catch_def insert_audit_def failed_entry_def entry_def split: option.splits)

lemma finish_log:
  "\<exists>es. audit_log (snd (finish w j (r, s2))) = audit_log s2 @ es
     \<and> list_all (\<lambda>e. correlation_id e = correlationId w j) es"
proof (cases r)
  case (Inl err)
  then show ?thesis using on_catch_log [of w j err s2] by (simp add: finish_def)
next
  case (Inr f)
  show ?thesis
  proof (cases f)
    case Return
    then show ?thesis using Inr by (simp add: finish_def)
  next
    case Fall
    show ?thesis
    proof (cases "db_insert w (length (calls s2))")
      case None
      then show ?thesis using Inr Fall
        by (simp add: finish_def insert_audit_def completed_entry_def entry_def)
    next
      case (Some err)
      then show ?thesis using Inr Fall
          on_catch_log [of w j err "s2\<lparr>calls := calls s2 @ [DbInsert (completed_entry w j)]\<rparr>"]
        by (simp add: finish_def insert_audit_def)
    qed
  qed
qed

lemma audit_log_correlation:
  "list_all (\<lambda>e. correlation_id e = correlationId w j) (drop (length (audit_log s)) (audit_log (snd (process w j s))))"
proof (cases "db_insert w (length (calls s))")
  case (Some e)
  then show ?thesis by (simp add: process_def insert_audit_raises)
next
  case None
  obtain r s2 where h: "handlers w j (after_started w j s) = (r, s2)"
    by (cases "handlers w j (after_started w j s)")
  have al: "audit_log s2 = audit_log s @ [started_entry w j]"
    using quiet_handlers [OF h] by (auto simp: quiet_def after_started_def)
  obtain es where es: "audit_log (snd (finish w j (r, s2))) = audit_log s2 @ es"
      "list_all (\<lambda>e. correlation_id e = correlationId w j) es"
    using finish_log [of w j r s2] by blast
  show ?thesis
    using h al es by (simp add: process_started [OF None] started_entry_def entry_def)
qed

text \<open>
  Claim C9, as the code has it. The correlation id is \<^verbatim>\<open>payload.correlation_id\<close> when that
  field is truthy (present and neither empty, zero, false nor null); otherwise it is the
  string \<^verbatim>\<open>job-<id>-<now>\<close> built from the job's id and the clock reading at the start of the
  execution. Every audit entry the execution writes carries that correlation id.
\<close>

theorem correlationId_source:
  "(truthy (opt_prop (job_data j) ''correlation_id'') \<longrightarrow>
      correlationId w j = opt_prop (job_data j) ''correlation_id'')
   \<and> (\<not> truthy (opt_prop (job_data j) ''correlation_id'') \<longrightarrow>
      correlationId w j = JStr (''job-'' @ job_id j @ ''-'' @ show_int (date_now w)))
   \<and> list_all (\<lambda>e. correlation_id e = correlationId w j)
        (drop (length (audit_log s)) (audit_log (snd (process w j s))))"
  using audit_log_correlation [of w j s] by (simp add: correlationId_def js_or_def)

section \<open>The properties on concrete runs\<close>

lemma refresh_outcome_good:
  "refresh_outcome (fixture_config\<lparr>SKEW_SECONDS := Fin k\<rparr>) good_answer now =
     Inr (fresh_token (real_of_int now + (600 - k) * 1000))"
  by (simp add: refresh_outcome_def good_answer_def fixture_config_def fixture_reader_def ok_def
      truthy_str_def computeExpiresAtConservative_def default_ttl_seconds_def fresh_token_def
      num_sub_def)

lemma refresh_outcome_fixture:
  "refresh_outcome fixture_config good_answer now = Inr (fresh_token (real_of_int now + 540000))"
  using refresh_outcome_good [of 60 now] by (simp add: fixture_config_def)

lemma show_int_400: "show_int 400 = ''400''"
  by code_simp

lemma refresh_outcome_bad:
  "refresh_outcome fixture_config bad_answer now =
     Inl (ErrorObj ''Salesforce token refresh failed (400): invalid_grant'')"
  by (simp add: refresh_outcome_def bad_answer_def ok_def show_int_400)

lemma token_url_fixture: "token_url fixture_config = ''https://login.salesforce.com/services/oauth2/token''"
  by (simp add: token_url_def fixture_config_def)

theorem expiresAt_conservative_counterexample:
  "SKEW_SECONDS zero_skew_config = Fin 0
   \<and> refresh_outcome zero_skew_config good_answer 1000 = Inr (fresh_token 601000)
   \<and> tokenCache (refresh_settle zero_skew_config 0 good_answer 1000 (refresh_begin zero_skew_config idle_state))
       = Some (fresh_token 601000)
   \<and> expiresAt (fresh_token 601000) = Fin (1000 + 600 * 1000)
   \<and> \<not> num_gt (Fin (1000 + 600 * 1000)) (expiresAt (fresh_token 601000))"
  using refresh_outcome_good [of 0 1000]
  by (simp add: zero_skew_config_def refresh_settle_def fresh_token_def fixture_config_def)

theorem expiresAt_conservative_witness:
  "refresh_outcome fixture_config good_answer 1000 = Inr (fresh_token 541000)
   \<and> tokenCache (refresh_settle fixture_config 0 good_answer 1000 (refresh_begin fixture_config idle_state))
       = Some (fresh_token 541000)
   \<and> expiresAt (fresh_token 541000) = Fin (1000 + (600 - 60) * 1000)
   \<and> num_gt (Fin (1000 + 600 * 1000)) (expiresAt (fresh_token 541000))"
proof -
  have h: "refresh_outcome fixture_config good_answer 1000 = Inr (fresh_token 541000)"
    using refresh_outcome_fixture [of 1000] by simp
  have skew: "SKEW_SECONDS fixture_config = Fin 60"
    by (simp add: fixture_config_def)
  have e1: "to_double fixture_config (600 - 60) = Fin (600 - 60)"
    and e2: "to_double fixture_config ((600 - 60) * 1000) = Fin ((600 - 60) * 1000)"
    and e3: "to_double fixture_config (real_of_int 1000 + (600 - 60) * 1000)
        = Fin (real_of_int 1000 + (600 - 60) * 1000)"
    by (simp_all add: fixture_config_def)
  show ?thesis
    using h expiresAt_conservative [OF h skew e1 e2 e3, of 0 "refresh_begin fixture_config idle_state"]
    by simp
qed

theorem single_flight_refresh_witness:
  "\<exists>s'. run fixture_config (needs [(1, 0), (2, 5), (3, 7)] @ [Answer good_answer 1000] @ needs [(4, 600000)] @ [Resume])
            \<lparr>modst = idle_state, handles = []\<rparr> = Some s'
      \<and> issuerCalls (modst s') = [''https://login.salesforce.com/services/oauth2/token'']
      \<and> outcome_of s' 1 = Some (Inr (fresh_token 541000))
      \<and> outcome_of s' 2 = Some (Inr (fresh_token 541000))
      \<and> outcome_of s' 3 = Some (Inr (fresh_token 541000))
      \<and> outcome_of s' 4 = Some (Inr (fresh_token 541000))
      \<and> refreshing (modst s') = None"
proof -
  have h: "refresh_outcome fixture_config good_answer 1000 = Inr (fresh_token 541000)"
    using refresh_outcome_fixture [of 1000] by simp
  have idle: "refreshing idle_state = None"
    by (simp add: idle_state_def)
  have first: "\<not> isValid 0 (tokenCache idle_state)"
    by (simp add: idle_state_def isValid_def)
  have early: "\<forall>(c, t) \<in> set [(2, 5), (3, 7)]. \<not> isValid t (tokenCache idle_state)"
    by (simp add: idle_state_def isValid_def)
  have late: "\<forall>(c, t) \<in> set [(4, 600000)].
      \<not> isValid t (cache_after idle_state (refresh_outcome fixture_config good_answer 1000))"
    by (simp add: h cache_after_def isValid_def fresh_token_def)
  show ?thesis
    using single_flight_refresh [OF idle first early late, of 1]
    by (simp add: h token_url_fixture idle_state_def)
qed

theorem refresh_failure_keeps_cache_witness:
  "refresh_fails fixture_config bad_answer
   \<and> fst (refreshAccessToken fixture_config failing_world cached_run)
        = Inl (ErrorObj ''Salesforce token refresh failed (400): invalid_grant'')
   \<and> tokenCache (sf (snd (refreshAccessToken fixture_config failing_world cached_run))) = Some old_token"
proof -
  have idle: "refreshing (sf cached_run) = None"
    by (simp add: cached_run_def)
  have fails: "refresh_fails fixture_config (issuer failing_world (length (issuerCalls (sf cached_run))))"
    by (simp add: refresh_fails_def failing_world_def bad_answer_def ok_def)
  have out: "fst (refreshAccessToken fixture_config failing_world cached_run)
        = Inl (ErrorObj ''Salesforce token refresh failed (400): invalid_grant'')"
    by (simp add: refreshAccessToken_def refreshAccessToken_call_def await_refresh_def cached_run_def
        promise_state_def refresh_begin_def failing_world_def refresh_outcome_bad Let_def)
  show ?thesis
    using refresh_failure_keeps_cache [OF idle fails] fails out
    by (simp add: failing_world_def cached_run_def)
qed

theorem refreshing_reset_after_settle_witness:
  "\<exists>s1. run fixture_config [Force 1, Answer bad_answer 1000, Resume] \<lparr>modst = idle_state, handles = []\<rparr> = Some s1
      \<and> refreshing (modst s1) = None
      \<and> outcome_of s1 1 = Some (Inl (ErrorObj ''Salesforce token refresh failed (400): invalid_grant''))
      \<and> (\<exists>s2. step fixture_config (Need 2 2000) s1 = Some s2
            \<and> issuerCalls (modst s2) = issuerCalls (modst s1) @ [''https://login.salesforce.com/services/oauth2/token'']
            \<and> map_of (handles s2) 2 = Some (Awaits 1)
            \<and> is_pending (modst s2) 1
            \<and> outcome_of s2 1 = Some (Inl (ErrorObj ''Salesforce token refresh failed (400): invalid_grant'')))"
proof -
  have idle: "refreshing idle_state = None"
    by (simp add: idle_state_def)
  have inv: "\<not> isValid 2000 (tokenCache idle_state)"
    by (simp add: idle_state_def isValid_def)
  show ?thesis
    using refreshing_reset_after_settle [OF idle, of fixture_config 1 bad_answer 1000 2000 2] inv
    by (simp add: refresh_outcome_bad token_url_fixture idle_state_def)
qed

lemma getAccessToken_cached:
  assumes "clock w 0 < 5000"
  shows "getAccessToken cfg w cached_run = (Inr old_token, cached_run\<lparr>ticks := 1\<rparr>)"
  using assms by (simp add: getAccessToken_def cached_run_def isValid_def old_token_def Let_def)

theorem sfFetch_returns_other_errors_witness:
  "\<not> isAuthFailure (status server_error) (Some (body_or_empty server_error))
   \<and> sfFetch fixture_config failing_world ''/services/data/v60.0/sobjects'' plain_options cached_run =
       (Inr server_error,
        cached_run\<lparr>ticks := 1,
          apiCalls := [first_request old_token ''/services/data/v60.0/sobjects'' plain_options]\<rparr>)"
proof -
  have g: "getAccessToken fixture_config failing_world cached_run = (Inr old_token, cached_run\<lparr>ticks := 1\<rparr>)"
    by (rule getAccessToken_cached) (simp add: failing_world_def)
  have a: "api failing_world (length (apiCalls (cached_run\<lparr>ticks := 1\<rparr>)))
      (first_request old_token ''/services/data/v60.0/sobjects'' plain_options) = Inr server_error"
    by (simp add: failing_world_def)
  have n: "\<not> isAuthFailure (status server_error) (Some (body_or_empty server_error))"
    by (simp add: isAuthFailure_def server_error_def)
  show ?thesis
    using sfFetch_returns_other_errors [OF g a n] n by (simp add: cached_run_def)
qed




lemma handlers_noop_job: "handlers w noop_job s = (Inr Fall, s)"
  by (simp add: handlers_def and_then_def slack_interaction_def slack_command_def verify_user_def
      create_contact_def create_case_def noop_job_def)


theorem unknown_job_is_noop_witness:
  "process quiet_world noop_job fresh_worker =
    (Inr (JObj [(''ok'', JBool True), (''processedAt'', JStr ''2026-01-01T00:00:00.000Z'')]),
     \<lparr>calls =
        [DbInsert \<lparr>source = ''queue'', action = ''noop-unknown'', entry_status = ''started'',
                   correlation_id = JStr ''job-42-1000'', payload = JObj []\<rparr>,
         DbInsert \<lparr>source = ''queue'', action = ''noop-unknown'', entry_status = ''completed'',
                   correlation_id = JStr ''job-42-1000'', payload = JObj []\<rparr>],
      audit_log =
        [\<lparr>source = ''queue'', action = ''noop-unknown'', entry_status = ''started'',
          correlation_id = JStr ''job-42-1000'', payload = JObj []\<rparr>,
         \<lparr>source = ''queue'', action = ''noop-unknown'', entry_status = ''completed'',
          correlation_id = JStr ''job-42-1000'', payload = JObj []\<rparr>]\<rparr>)"
proof -
  have unknown: "job_name noop_job \<notin>
      {''slack-interaction'', ''slack-command'', ''verify-user'', ''create-contact'', ''create-case''}"
    by (simp add: noop_job_def)
  have w1: "db_insert quiet_world (length (calls fresh_worker)) = None"
    by (simp add: quiet_world_def)
  have w2: "db_insert quiet_world (Suc (length (calls fresh_worker))) = None"
    by (simp add: quiet_world_def)
  have n: "show_int 1000 = ''1000''" by code_simp
  have c: "correlationId quiet_world noop_job = JStr ''job-42-1000''"
    by (simp add: correlationId_def js_or_def noop_job_def quiet_world_def n)
  have i: "iso_now quiet_world = ''2026-01-01T00:00:00.000Z''"
    by (simp add: quiet_world_def)
  have j: "job_name noop_job = ''noop-unknown''" "job_data noop_job = JObj []"
    by (simp_all add: noop_job_def)
  show ?thesis
    using unknown_job_is_noop [OF unknown w1 w2]
    by (simp add: c i j fresh_worker_def)
qed

theorem correlationId_source_counterexample:
  "map_of [(''correlation_id'', JStr [])] ''correlation_id'' = Some (JStr [])
   \<and> job_data blank_id_job = JObj [(''correlation_id'', JStr [])]
   \<and> correlationId quiet_world blank_id_job = JStr ''job-44-1000''
   \<and> correlationId quiet_world blank_id_job \<noteq> opt_prop (job_data blank_id_job) ''correlation_id''"
proof -
  have "show_int 1000 = ''1000''" by code_simp
  then show ?thesis
    by (simp add: correlationId_def js_or_def blank_id_job_def quiet_world_def)
qed

theorem correlationId_source_witness:
  "correlationId quiet_world command_job = JStr ''c-1''
   \<and> correlationId quiet_world noop_job = JStr ''job-42-1000''
   \<and> list_all (\<lambda>e. correlation_id e = JStr ''c-1'')
        (audit_log (snd (process quiet_world command_job fresh_worker)))"
proof -
  have n: "show_int 1000 = ''1000''" by code_simp
  have present: "truthy (opt_prop (job_data command_job) ''correlation_id'')"
    by (simp add: command_job_def)
  have absent: "\<not> truthy (opt_prop (job_data noop_job) ''correlation_id'')"
    by (simp add: noop_job_def)
  have a: "correlationId quiet_world command_job = JStr ''c-1''"
    using correlationId_source [of command_job quiet_world fresh_worker] present
    by (simp add: command_job_def)
  have b: "correlationId quiet_world noop_job = JStr ''job-42-1000''"
    using correlationId_source [of noop_job quiet_world fresh_worker] absent
    by (simp add: noop_job_def quiet_world_def n)
  have c: "list_all (\<lambda>e. correlation_id e = correlationId quiet_world command_job)
      (drop (length (audit_log fresh_worker)) (audit_log (snd (process quiet_world command_job fresh_worker))))"
    using correlationId_source [of command_job quiet_world fresh_worker] by blast
  show ?thesis
    using a b c by (simp add: fresh_worker_def)
qed

end
